(* ===== verification/Prelude.thy ===== *)
theory Prelude
  imports Main "HOL-Library.Sublist"
begin

text \<open>
  Shared vocabulary of the development: the Python built-ins the two scripts rely on,
  written from the Python semantics (they are library code, not code of the
  repository): \<open>str.replace\<close>, \<open>str.split\<close>, the \<open>in\<close> test on strings,
  and a \<open>dict\<close> as an association list that keeps insertion order. The generic lemmas
  about them are collected in \<open>str_simps\<close> and \<open>dict_simps\<close>.
\<close>

named_theorems str_simps "rewrite rules for the model of Python string methods"
named_theorems dict_simps "rewrite rules for the model of Python dicts"

section \<open>Python strings\<close>

text \<open>
  A Python \<open>str\<close> is a \<open>string\<close>. Python counts code points, HOL's \<open>char\<close> is a byte;
  the scripts only compare lengths of strings that consist of ASCII hex digits, where
  the two counts agree.
\<close>

text \<open>\<open>s.replace(old, new)\<close>: scan left to right, replace every non-overlapping
  occurrence of a non-empty \<open>old\<close>.\<close>

fun replace_aux :: "string \<Rightarrow> string \<Rightarrow> string \<Rightarrow> string" where
  "replace_aux old new [] = []"
| "replace_aux old new (c # cs) =
     (if old \<noteq> [] \<and> prefix old (c # cs)
      then new @ replace_aux old new (drop (length old) (c # cs))
      else c # replace_aux old new cs)"

text \<open>For an empty \<open>old\<close> CPython inserts \<open>new\<close> before every character and at the end.\<close>

definition str_replace :: "string \<Rightarrow> string \<Rightarrow> string \<Rightarrow> string" where
  "str_replace old new s =
     (if old = [] then new @ concat (map (\<lambda>c. c # new) s) else replace_aux old new s)"

text \<open>\<open>s.split(sep)\<close> for a non-empty separator: the pieces between the leftmost
  non-overlapping occurrences (\<open>pathlib\<close> splits a path at \<open>/\<close> with it).\<close>

fun split_acc :: "string \<Rightarrow> string \<Rightarrow> string \<Rightarrow> string list" where
  "split_acc sep cur [] = [cur]"
| "split_acc sep cur (c # cs) =
     (if sep \<noteq> [] \<and> prefix sep (c # cs)
      then cur # split_acc sep [] (drop (length sep) (c # cs))
      else split_acc sep (cur @ [c]) cs)"

definition str_split :: "string \<Rightarrow> string \<Rightarrow> string list" where
  "str_split sep s = split_acc sep [] s"

section \<open>Python dicts\<close>

text \<open>
  A \<open>dict\<close> is an association list in insertion order. Reading is \<open>map_of\<close>
  (the first entry of a key); assignment to a present key
  keeps its position, to a new key appends it; \<open>pop\<close> removes the key.
\<close>

type_synonym 'v pydict = "(string \<times> 'v) list"

definition dict_keys :: "'v pydict \<Rightarrow> string list" where
  "dict_keys d = map fst d"

definition dict_set :: "string \<Rightarrow> 'v \<Rightarrow> 'v pydict \<Rightarrow> 'v pydict" where
  "dict_set k v d =
     (if k \<in> set (map fst d)
      then map (\<lambda>(k', v'). if k' = k then (k', v) else (k', v')) d
      else d @ [(k, v)])"

definition dict_pop :: "string \<Rightarrow> 'v pydict \<Rightarrow> 'v pydict" where
  "dict_pop k d = filter (\<lambda>(k', _). k' \<noteq> k) d"

section \<open>Exceptions as values\<close>

text \<open>A computation that may raise: \<open>Inl\<close> carries the exception. \<open>err_bind\<close> runs the
  next statement only when the previous one returned.\<close>

primrec err_bind :: "'e + 'a \<Rightarrow> ('a \<Rightarrow> 'e + 'b) \<Rightarrow> 'e + 'b" where
  "err_bind (Inl e) f = Inl e"
| "err_bind (Inr a) f = f a"

section \<open>Lemmas on strings\<close>

lemma split_acc_nonempty [str_simps]: "split_acc sep cur s \<noteq> []"
  by (induction sep cur s rule: split_acc.induct) simp_all

lemma replace_aux_prefix [str_simps]:
  "old \<noteq> [] \<Longrightarrow> replace_aux old new (old @ s) = new @ replace_aux old new s"
  by (cases old) simp_all

lemma replace_aux_absent:
  "\<not> sublist old s \<Longrightarrow> replace_aux old new s = s"
proof (induction s)
  case (Cons c cs)
  then show ?case by (simp add: sublist_Cons_right)
qed simp

lemma str_replace_absent [str_simps]:
  "old \<noteq> [] \<Longrightarrow> \<not> sublist old s \<Longrightarrow> str_replace old new s = s"
  by (simp add: str_replace_def replace_aux_absent)

lemma str_replace_Cons_nonprefix [str_simps]:
  "old \<noteq> [] \<Longrightarrow> \<not> prefix old (c # cs) \<Longrightarrow>
   str_replace old new (c # cs) = c # str_replace old new cs"
  by (simp add: str_replace_def)

lemma str_replace_prefix [str_simps]:
  "old \<noteq> [] \<Longrightarrow> str_replace old new (old @ s) = new @ str_replace old new s"
  by (simp add: str_replace_def replace_aux_prefix)

text \<open>A string that ends in the only occurrence of \<open>old\<close> gets \<open>new\<close> in its place.\<close>

lemma str_replace_suffix:
  assumes "old \<noteq> []" "hd old \<notin> set pre"
  shows "str_replace old new (pre @ old) = pre @ new"
  using assms(2)
proof (induction pre)
  case Nil
  with assms(1) show ?case
    using str_replace_prefix [of old new "[]"] by (simp add: str_replace_def)
next
  case (Cons c pre)
  from assms(1) obtain x xs where "old = x # xs" by (cases old) auto
  with Cons.prems have "\<not> prefix old (c # pre @ old)" by auto
  with Cons assms(1) show ?case by (simp add: str_replace_Cons_nonprefix)
qed

text \<open>Removing a one-character string is filtering that character out.\<close>

lemma str_replace_single_delete [str_simps]:
  "str_replace [d] [] s = filter (\<lambda>c. c \<noteq> d) s"
  by (induction s) (simp_all add: str_replace_def)

section \<open>Lemmas on dicts\<close>

lemma map_of_overwrite:
  "map_of (map (\<lambda>(k', v'). if k' = k then (k', v) else (k', v')) d) x =
   (if x = k then (if k \<in> set (map fst d) then Some v else None) else map_of d x)"
  by (induction d) (auto simp: rev_image_eqI)

lemma map_of_dict_set [dict_simps]: "map_of (dict_set k v d) = (map_of d)(k \<mapsto> v)"
  by (auto simp: dict_set_def fun_eq_iff map_of_overwrite map_add_def
      split: option.splits dest: map_of_eq_None_iff [THEN iffD2])

lemma keys_dict_set [dict_simps]:
  "map fst (dict_set k v d) = (if k \<in> set (map fst d) then map fst d else map fst d @ [k])"
  by (induction d) (auto simp: dict_set_def)

text \<open>A comprehension \<open>{k: f(v) for k, v in d.items()}\<close> keeps the keys and their order
  (stated in the simplifier's normal form of \<open>map fst (map _ d)\<close>).\<close>

lemma keys_map_values [simp, dict_simps]: "map (fst \<circ> (\<lambda>(k, v). (k, f v))) d = map fst d"
  by (induction d) auto

lemma set_dict_set [dict_simps]: "set (dict_set k v d) \<subseteq> insert (k, v) (set d)"
  by (auto simp: dict_set_def split: if_splits)

lemma set_dict_pop [dict_simps]: "set (dict_pop k d) \<subseteq> set d"
  by (auto simp: dict_pop_def)

lemma map_of_dict_pop [dict_simps]: "map_of (dict_pop k d) = (map_of d)(k := None)"
  by (induction d) (auto simp: dict_pop_def fun_eq_iff)

lemma keys_dict_pop [dict_simps]: "map fst (dict_pop k d) = filter (\<lambda>k'. k' \<noteq> k) (map fst d)"
  by (induction d) (auto simp: dict_pop_def)

lemma dict_pop_absent [dict_simps]: "k \<notin> set (map fst d) \<Longrightarrow> dict_pop k d = d"
  by (induction d) (auto simp: dict_pop_def)

end
