(* ===== verification/Json.thy ===== *)
theory Json
  imports Prelude
begin

text \<open>
  The values \<open>json.load\<close> returns (the spec's \<open>JsonValue\<close>), the exceptions the scripts
  can end with, and what the Python operators the scripts apply to loaded values do on
  each kind of value: \<open>x[k]\<close>, \<open>k in x\<close>, \<open>x.get(k, d)\<close>, \<open>x[k] = v\<close>,
  \<open>x.pop(k, None)\<close>, \<open>x.keys()\<close>, \<open>f(**x)\<close>. Numbers are a type parameter: no
  operation of the scripts inspects one.
\<close>

datatype 'n json =
    JNull
  | JBool bool
  | JNumber 'n
  | JString string
  | JArray "'n json list"
  | JObject "(string \<times> 'n json) list"

text \<open>
  How an invocation ends: the four \<open>sys.exit(1)\<close> branches of the scripts (named as the
  spec names them), the parse error of \<open>json.load\<close>/\<open>json.loads\<close>, the Python
  built-in exceptions the scripts can raise on unexpected shapes, the client's
  \<open>APIResponseError\<close> with the remote detail, and the \<open>OSError\<close>s of
  \<open>open\<close>.
\<close>

datatype error =
    MissingCredentialError
  | ConfigNotFoundError
  | UnknownTargetError string "string list"
  | TemplateNotFoundError string
  | JSONDecodeError
  | TypeError
  | KeyError string
  | AttributeError
  | APIResponseError string
  | FileNotFoundError
  | NotADirectoryError
  | IsADirectoryError

type_synonym 'a result = "error + 'a"

section \<open>Python operators on loaded values\<close>

text \<open>\<open>x[k]\<close> with a string \<open>k\<close>: a dict looks the key up; a list or a string
  wants an integer index, every other value is not subscriptable.\<close>

fun py_getitem :: "'n json \<Rightarrow> string \<Rightarrow> 'n json result" where
  "py_getitem (JObject d) k = (case map_of d k of None \<Rightarrow> Inl (KeyError k) | Some v \<Rightarrow> Inr v)"
| "py_getitem _ k = Inl TypeError"

text \<open>\<open>k in x\<close> with a string \<open>k\<close>: key membership for a dict, element equality
  for a list, substring test for a string; numbers, booleans and \<open>None\<close> are not
  iterable.\<close>

fun py_contains :: "string \<Rightarrow> 'n json \<Rightarrow> bool result" where
  "py_contains k (JObject d) = Inr (k \<in> set (map fst d))"
| "py_contains k (JArray xs) = Inr (JString k \<in> set xs)"
| "py_contains k (JString s) = Inr (sublist k s)"
| "py_contains k _ = Inl TypeError"

text \<open>\<open>x.get(k, default)\<close>: only a dict has \<open>get\<close>.\<close>

fun py_get :: "'n json \<Rightarrow> string \<Rightarrow> 'n json \<Rightarrow> 'n json result" where
  "py_get (JObject d) k dflt = Inr (case map_of d k of None \<Rightarrow> dflt | Some v \<Rightarrow> v)"
| "py_get _ k dflt = Inl AttributeError"

text \<open>\<open>x.keys()\<close>: only a dict has \<open>keys\<close>.\<close>

fun py_keys :: "'n json \<Rightarrow> string list result" where
  "py_keys (JObject d) = Inr (dict_keys d)"
| "py_keys _ = Inl AttributeError"

text \<open>\<open>x[k] = v\<close>: a dict stores the key; a list wants an integer index, a string
  and the scalars do not support item assignment.\<close>

fun py_setitem :: "'n json \<Rightarrow> string \<Rightarrow> 'n json \<Rightarrow> 'n json result" where
  "py_setitem (JObject d) k v = Inr (JObject (dict_set k v d))"
| "py_setitem _ k v = Inl TypeError"

text \<open>\<open>x.pop(k, None)\<close>: a dict drops the key; \<open>list.pop\<close> takes at most one
  argument (\<open>TypeError\<close>); the other values have no \<open>pop\<close>.\<close>

fun py_pop :: "'n json \<Rightarrow> string \<Rightarrow> 'n json result" where
  "py_pop (JObject d) k = Inr (JObject (dict_pop k d))"
| "py_pop (JArray xs) k = Inl TypeError"
| "py_pop _ k = Inl AttributeError"

text \<open>\<open>f(**x)\<close>: the keyword arguments of a call; only a mapping can be unpacked.\<close>

fun py_kwargs :: "'n json \<Rightarrow> 'n json pydict result" where
  "py_kwargs (JObject d) = Inr d"
| "py_kwargs _ = Inl TypeError"

section \<open>Lemmas\<close>

lemma py_getitem_Inr [simp]:
  "py_getitem x k = Inr v \<longleftrightarrow> (\<exists>d. x = JObject d \<and> map_of d k = Some v)"
  by (cases x) (auto split: option.splits)

end
