(* ===== verification/Paths.thy ===== *)
theory Paths
  imports Json
begin

text \<open>
  The part of \<open>pathlib\<close> and of the operating system the scripts go through to reach a
  file, from the semantics of CPython on POSIX (library code, not code of the
  repository). A \<open>PurePosixPath\<close> is its anchor (\<open>''''\<close>, \<open>/\<close> or \<open>//\<close>) and its
  parts: parsing drops empty parts and \<open>.\<close> but keeps \<open>..\<close>; \<open>/\<close> appends the parts of
  a relative right operand and is replaced by an absolute one; \<open>parent\<close> drops the last
  part. The file system maps absolute locations (the list of names from \<open>/\<close>) to
  files and directories, as in HOL's Unix model; the OS resolves a path one name at a
  time, each step inside a directory that exists, \<open>..\<close> going up. \<open>resolve()\<close> is the
  same walk without the existence checks (no symbolic links are modelled).
\<close>

section \<open>Pure paths\<close>

datatype pypath = PPath string "string list"

text \<open>\<open>posixpath.splitroot\<close>: exactly two leading slashes are kept, more collapse to one.\<close>

definition path_anchor :: "string \<Rightarrow> string" where
  "path_anchor s =
     (if take 1 s \<noteq> ''/'' then []
      else if take 2 s = ''//'' \<and> take 3 s \<noteq> ''///'' then ''//'' else ''/'')"

definition path_parts :: "string \<Rightarrow> string list" where
  "path_parts s = filter (\<lambda>x. x \<noteq> [] \<and> x \<noteq> ''.'') (str_split ''/'' s)"

text \<open>\<open>PurePosixPath(s)\<close>.\<close>

definition path_of :: "string \<Rightarrow> pypath" where
  "path_of s = PPath (path_anchor s) (path_parts s)"

text \<open>\<open>p / s\<close>.\<close>

definition path_div :: "pypath \<Rightarrow> string \<Rightarrow> pypath" where
  "path_div p s =
     (if path_anchor s \<noteq> [] then path_of s
      else (case p of PPath a ps \<Rightarrow> PPath a (ps @ path_parts s)))"

text \<open>\<open>p.parent\<close>: the path itself when it has no part.\<close>

fun path_parent :: "pypath \<Rightarrow> pypath" where
  "path_parent (PPath a ps) = PPath a (butlast ps)"

section \<open>The file system\<close>

datatype fs_entry = File string | Dir

type_synonym filesystem = "string list \<Rightarrow> fs_entry option"

text \<open>One step of a walk: \<open>..\<close> goes to the parent (the root is its own parent), any
  other name into the entry of that name.\<close>

definition walk_step :: "string list \<Rightarrow> string \<Rightarrow> string list" where
  "walk_step cur x = (if x = ''..'' then butlast cur else cur @ [x])"

text \<open>The kernel's lookup of the names of a path from a starting directory: every step
  needs the current location to be a directory.\<close>

fun os_walk :: "filesystem \<Rightarrow> string list \<Rightarrow> string list \<Rightarrow> error + string list" where
  "os_walk fs cur [] = Inr cur"
| "os_walk fs cur (x # xs) =
     (case fs cur of
        Some Dir \<Rightarrow> os_walk fs (walk_step cur x) xs
      | Some (File _) \<Rightarrow> Inl NotADirectoryError
      | None \<Rightarrow> Inl FileNotFoundError)"

text \<open>A relative path starts at the working directory \<open>cwd\<close>.\<close>

fun os_locate :: "filesystem \<Rightarrow> string list \<Rightarrow> pypath \<Rightarrow> error + string list" where
  "os_locate fs cwd (PPath a ps) = os_walk fs (if a = [] then cwd else []) ps"

text \<open>\<open>p.resolve()\<close> without symbolic links: the absolute path, \<open>..\<close> applied.\<close>

fun path_resolve :: "string list \<Rightarrow> pypath \<Rightarrow> pypath" where
  "path_resolve cwd (PPath a ps) = PPath ''/'' (foldl walk_step (if a = [] then cwd else []) ps)"

text \<open>\<open>p.exists()\<close>: \<open>os.stat\<close> succeeds; every \<open>OSError\<close> reads as \<open>False\<close>.\<close>

definition path_exists :: "filesystem \<Rightarrow> string list \<Rightarrow> pypath \<Rightarrow> bool" where
  "path_exists fs cwd p = (case os_locate fs cwd p of Inl _ \<Rightarrow> False | Inr q \<Rightarrow> fs q \<noteq> None)"

text \<open>\<open>open(p)\<close> for reading, and the text \<open>f.read()\<close> returns.\<close>

definition open_read :: "filesystem \<Rightarrow> string list \<Rightarrow> pypath \<Rightarrow> error + string" where
  "open_read fs cwd p =
     (case os_locate fs cwd p of
        Inl e \<Rightarrow> Inl e
      | Inr q \<Rightarrow>
          (case fs q of
             None \<Rightarrow> Inl FileNotFoundError
           | Some Dir \<Rightarrow> Inl IsADirectoryError
           | Some (File s) \<Rightarrow> Inr s))"

text \<open>The text of the regular file a path reaches, if any.\<close>

definition file_text :: "filesystem \<Rightarrow> string list \<Rightarrow> pypath \<Rightarrow> string option" where
  "file_text fs cwd p = (case open_read fs cwd p of Inl _ \<Rightarrow> None | Inr s \<Rightarrow> Some s)"

section \<open>Lemmas\<close>

named_theorems path_simps "evaluation rules for paths"

lemma split_acc_no_sep:
  "c \<notin> set s \<Longrightarrow> split_acc [c] cur s = [cur @ s]"
  by (induction s arbitrary: cur) auto

lemma path_anchor_rel [path_simps]: "take 1 s \<noteq> ''/'' \<Longrightarrow> path_anchor s = []"
  by (simp add: path_anchor_def)

lemma path_parts_name [path_simps]:
  "CHR ''/'' \<notin> set s \<Longrightarrow> path_parts s = filter (\<lambda>x. x \<noteq> [] \<and> x \<noteq> ''.'') [s]"
  by (simp add: path_parts_def str_split_def split_acc_no_sep)

lemma path_div_name [path_simps]:
  "CHR ''/'' \<notin> set s \<Longrightarrow> s \<noteq> [] \<Longrightarrow> s \<noteq> ''.'' \<Longrightarrow> path_div (PPath a ps) s = PPath a (ps @ [s])"
proof -
  assume "CHR ''/'' \<notin> set s" "s \<noteq> []" "s \<noteq> ''.''"
  moreover from this have "take 1 s \<noteq> ''/''" by (cases s) auto
  ultimately show ?thesis by (simp add: path_div_def path_anchor_rel path_parts_name)
qed

lemma open_read_exists: "open_read fs cwd p = Inr s \<Longrightarrow> path_exists fs cwd p"
  by (auto simp: open_read_def path_exists_def split: sum.splits option.splits fs_entry.splits)

lemma file_text_Some [path_simps]:
  "file_text fs cwd p = Some s \<longleftrightarrow> open_read fs cwd p = Inr s"
  by (simp add: file_text_def split: sum.splits)

lemma os_walk_dirs:
  "(\<forall>i < length xs. fs (foldl walk_step cur (take i xs)) = Some Dir) \<Longrightarrow>
   os_walk fs cur xs = Inr (foldl walk_step cur xs)"
proof (induction xs arbitrary: cur)
  case (Cons x xs)
  from Cons.prems have "fs cur = Some Dir" by (metis length_greater_0_conv list.discI foldl_Nil take0)
  moreover from Cons.prems have "\<forall>i < length xs. fs (foldl walk_step (walk_step cur x) (take i xs)) = Some Dir"
    by (auto dest: spec [of _ "Suc _"])
  ultimately show ?case using Cons.IH by simp
qed simp

end
