(* ===== verification/Runtime.thy ===== *)
theory Runtime
  imports Paths
begin

text \<open>
  The effects of one invocation of a script. The world (\<open>world\<close>) is what the process
  reads: the environment variable \<open>NOTION_API_TOKEN\<close>, the script's \<open>__file__\<close> and
  the working directory, the file system (\<open>Paths\<close>), the JSON parser of the standard library (a parameter: \<open>None\<close> is a
  \<open>JSONDecodeError\<close>), today's date, and the remote service's answer to each request
  (\<open>Inl\<close>: the detail of an \<open>APIResponseError\<close>). What the process does is a list of
  events, in order: files opened, requests sent, lines printed to standard output.
  A run (\<open>run\<close>) is the events so far and the value or exception; \<open>run_bind\<close> is the
  sequencing of two statements.
\<close>

datatype 'n request =
    Pages_create "'n json pydict"
  | Databases_create "'n json pydict"
  | Pages_update "'n json" "'n json"
  | Databases_query "'n json pydict"
  | Blocks_children_append "'n json" "'n json"
  | Pages_retrieve "'n json"

record 'n world =
  env_token :: "string option"
  main_file :: string
  cwd :: "string list"
  files :: filesystem
  json_parse :: "string \<Rightarrow> 'n json option"
  today :: string
  api :: "'n request \<Rightarrow> string + 'n json"

text \<open>A printed line is a list of pieces: literal text, or \<open>str()\<close> of a value in an
  f-string. \<open>Print_json\<close> is \<open>print(json.dumps(v, indent=2, default=str))\<close>.\<close>

datatype 'n piece = Txt string | Str_of "'n json"

text \<open>A file opened and read: the configuration by \<open>load_config\<close> (or its copy in
  \<^verbatim>\<open>create_project.py\<close>), a template by \<open>load_template\<close>; the path is the one
  the code opened.\<close>

datatype 'n event =
    Read_config pypath
  | Read_template pypath
  | Api_call "'n request"
  | Print "'n piece list"
  | Print_json "'n json"

type_synonym ('n, 'a) run = "'n event list \<times> 'a result"

definition run_bind :: "('n, 'a) run \<Rightarrow> ('a \<Rightarrow> ('n, 'b) run) \<Rightarrow> ('n, 'b) run" where
  "run_bind m f =
     (case m of
        (tr, Inl e) \<Rightarrow> (tr, Inl e)
      | (tr, Inr a) \<Rightarrow> (case f a of (tr', r) \<Rightarrow> (tr @ tr', r)))"

definition pure :: "'a result \<Rightarrow> ('n, 'a) run" where
  "pure r = ([], r)"

definition emit :: "'n event \<Rightarrow> ('n, unit) run" where
  "emit ev = ([ev], Inr ())"

section \<open>Paths and the standard library\<close>

text \<open>The module constants of both scripts: \<open>ROOT\<close>, the parent of the directory of
  the resolved script, and the configuration file and template directory under it
  (\<^verbatim>\<open>notion_client.py\<close> computes the same two paths without naming \<open>ROOT\<close>:
  \<open>CONFIG_PATH_nc\<close>, \<open>TEMPLATES_DIR_nc\<close> below).
  \<open>template_path\<close> is \<open>TEMPLATES_DIR / f"{name}.json"\<close> of \<open>load_template\<close>.\<close>

definition ROOT :: "'n world \<Rightarrow> pypath" where
  "ROOT w = path_parent (path_parent (path_resolve (cwd w) (path_of (main_file w))))"

definition CONFIG_PATH :: "'n world \<Rightarrow> pypath" where
  "CONFIG_PATH w = path_div (ROOT w) ''notion-config.json''"

definition TEMPLATES_DIR :: "'n world \<Rightarrow> pypath" where
  "TEMPLATES_DIR w = path_div (ROOT w) ''templates''"

text \<open>The two constants of \<^verbatim>\<open>notion_client.py\<close>, each computed from
  \<open>__file__\<close> on its own.\<close>

definition CONFIG_PATH_nc :: "'n world \<Rightarrow> pypath" where
  "CONFIG_PATH_nc w =
     path_div (path_parent (path_parent (path_resolve (cwd w) (path_of (main_file w)))))
       ''notion-config.json''"

definition TEMPLATES_DIR_nc :: "'n world \<Rightarrow> pypath" where
  "TEMPLATES_DIR_nc w =
     path_div (path_parent (path_parent (path_resolve (cwd w) (path_of (main_file w))))) ''templates''"

definition template_path :: "'n world \<Rightarrow> string \<Rightarrow> pypath" where
  "template_path w name = path_div (TEMPLATES_DIR w) (name @ ''.json'')"

text \<open>\<open>json.load(f)\<close> / \<open>json.loads(s)\<close>.\<close>

definition json_load :: "'n world \<Rightarrow> string \<Rightarrow> 'n json result" where
  "json_load w txt = (case json_parse w txt of None \<Rightarrow> Inl JSONDecodeError | Some j \<Rightarrow> Inr j)"

text \<open>\<open>with open(path) as f: return json.load(f)\<close>: the file is read when
  \<open>open\<close> succeeds (event \<open>ev path\<close>), then parsed.\<close>

definition open_json :: "'n world \<Rightarrow> pypath \<Rightarrow> (pypath \<Rightarrow> 'n event) \<Rightarrow> ('n, 'n json) run" where
  "open_json w path ev =
     (case open_read (files w) (cwd w) path of
        Inl e \<Rightarrow> ([], Inl e)
      | Inr s \<Rightarrow> ([ev path], json_load w s))"

text \<open>A call of the remote client: the request is sent, then its answer is the value
  of the call, or the \<open>APIResponseError\<close> it raises.\<close>

definition api_call :: "'n world \<Rightarrow> 'n request \<Rightarrow> ('n, 'n json) run" where
  "api_call w req =
     ([Api_call req], (case api w req of Inl d \<Rightarrow> Inl (APIResponseError d) | Inr r \<Rightarrow> Inr r))"

section \<open>An example world\<close>

text \<open>A world for the examples: the project checked out at \<^verbatim>\<open>/srv/hub\<close> and
  run from there as \<^verbatim>\<open>python scripts/notion_client.py\<close>, with a token, a
  configuration file and the default template \<open>project-page\<close>, which the parser reads
  as \<open>cfg\<close> and \<open>tpl\<close>, and a service that answers every request with a page.\<close>

definition demo_files :: filesystem where
  "demo_files q =
     (if q \<in> {[], [''srv''], [''srv'', ''hub''], [''srv'', ''hub'', ''scripts''],
               [''srv'', ''hub'', ''templates'']} then Some Dir
      else if q = [''srv'', ''hub'', ''notion-config.json''] then Some (File ''<config>'')
      else if q = [''srv'', ''hub'', ''templates'', ''project-page.json''] then Some (File ''<template>'')
      else None)"

definition demo_world :: "int json \<Rightarrow> int json \<Rightarrow> int world" where
  "demo_world cfg tpl =
     \<lparr>env_token = Some ''secret_token'',
      main_file = ''scripts/notion_client.py'',
      cwd = [''srv'', ''hub''],
      files = demo_files,
      json_parse = (\<lambda>s. if s = ''<config>'' then Some cfg
                        else if s = ''<template>'' then Some tpl else None),
      today = ''2026-11-09'',
      api = (\<lambda>_. Inr (JObject [(''id'', JString ''page-1''), (''url'', JString ''https://example.invalid/page-1'')]))\<rparr>"

section \<open>Lemmas on runs\<close>

named_theorems run_simps "evaluation rules for sequenced runs"

lemma run_bind_Inl [run_simps, simp]: "run_bind (tr, Inl e) f = (tr, Inl e)"
  by (simp add: run_bind_def)

lemma run_bind_Inr [run_simps, simp]:
  "run_bind (tr, Inr a) f = (tr @ fst (f a), snd (f a))"
  by (simp add: run_bind_def split: prod.splits)

lemma run_bind_pure_Inl [run_simps, simp]: "run_bind (pure (Inl e)) f = ([], Inl e)"
  by (simp add: pure_def)

lemma run_bind_pure_Inr [run_simps, simp]: "run_bind (pure (Inr a)) f = f a"
  by (simp add: pure_def)

lemma run_bind_assoc:
  "run_bind (run_bind m f) g = run_bind m (\<lambda>a. run_bind (f a) g)"
  by (simp add: run_bind_def split: prod.splits sum.splits)

lemma run_bind_trace_prefix: "prefix (fst m) (fst (run_bind m f))"
  by (simp add: run_bind_def split: prod.splits sum.splits)

text \<open>The constants of \<^verbatim>\<open>notion_client.py\<close> are those of
  \<^verbatim>\<open>create_project.py\<close>; the component proofs use the latter.\<close>

lemma CONFIG_PATH_nc_ROOT [simp]: "CONFIG_PATH_nc w = CONFIG_PATH w"
  by (simp add: CONFIG_PATH_nc_def CONFIG_PATH_def ROOT_def)

lemma TEMPLATES_DIR_nc_ROOT [simp]: "TEMPLATES_DIR_nc w = TEMPLATES_DIR w"
  by (simp add: TEMPLATES_DIR_nc_def TEMPLATES_DIR_def ROOT_def)

lemma run_bind_api_call [run_simps]:
  "run_bind (api_call w req) f =
     (Api_call req # (case api w req of Inl d \<Rightarrow> [] | Inr r \<Rightarrow> fst (f r)),
      (case api w req of Inl d \<Rightarrow> Inl (APIResponseError d) | Inr r \<Rightarrow> snd (f r)))"
  by (simp add: api_call_def split: sum.splits)

lemma run_bind_open_json [run_simps]:
  "open_read (files w) (cwd w) p = Inr s \<Longrightarrow> open_json w p ev = ([ev p], json_load w s)"
  "open_read (files w) (cwd w) p = Inl e \<Longrightarrow> open_json w p ev = ([], Inl e)"
  by (simp_all add: open_json_def)

lemma run_bind_snd_Inr: "snd m = Inr a \<Longrightarrow> run_bind m f = (fst m @ fst (f a), snd (f a))"
  by (cases m) simp

section \<open>The example world\<close>

lemma demo_ROOT [simp]:
  "main_file w = ''scripts/notion_client.py'' \<Longrightarrow> cwd w = [''srv'', ''hub''] \<Longrightarrow>
   ROOT w = PPath ''/'' [''srv'', ''hub'']"
  by (simp add: ROOT_def path_of_def path_anchor_def path_parts_def str_split_def walk_step_def)

lemma demo_CONFIG_PATH [simp]:
  "main_file w = ''scripts/notion_client.py'' \<Longrightarrow> cwd w = [''srv'', ''hub''] \<Longrightarrow>
   CONFIG_PATH w = PPath ''/'' [''srv'', ''hub'', ''notion-config.json'']"
  by (simp add: CONFIG_PATH_def path_div_name)

lemma demo_template_path [simp]:
  "main_file w = ''scripts/notion_client.py'' \<Longrightarrow> cwd w = [''srv'', ''hub''] \<Longrightarrow>
   CHR ''/'' \<notin> set name \<Longrightarrow>
   template_path w name = PPath ''/'' [''srv'', ''hub'', ''templates'', name @ ''.json'']"
  by (simp add: template_path_def TEMPLATES_DIR_def path_div_name)

lemma demo_open [simp]:
  "open_read demo_files cwd' (PPath ''/'' [''srv'', ''hub'', ''notion-config.json'']) = Inr ''<config>''"
  "open_read demo_files cwd' (PPath ''/'' [''srv'', ''hub'', ''templates'', ''project-page.json'']) =
     Inr ''<template>''"
  by (simp_all add: open_read_def demo_files_def walk_step_def)

lemma demo_file_text [simp]:
  "file_text demo_files cwd' (PPath ''/'' [''srv'', ''hub'', ''notion-config.json'']) = Some ''<config>''"
  "file_text demo_files cwd' (PPath ''/'' [''srv'', ''hub'', ''templates'', ''project-page.json'']) =
     Some ''<template>''"
  by (simp_all add: file_text_def)

lemma demo_exists [simp]:
  "path_exists demo_files cwd' (PPath ''/'' [''srv'', ''hub'', ''notion-config.json''])"
  "path_exists demo_files cwd' (PPath ''/'' [''srv'', ''hub'', ''templates'', ''project-page.json''])"
  by (simp_all add: open_read_exists)

lemma demo_world_simps [simp]:
  "main_file (demo_world cfg tpl) = ''scripts/notion_client.py''"
  "cwd (demo_world cfg tpl) = [''srv'', ''hub'']"
  "files (demo_world cfg tpl) = demo_files"
  "env_token (demo_world cfg tpl) = Some ''secret_token''"
  "today (demo_world cfg tpl) = ''2026-11-09''"
  by (simp_all add: demo_world_def)

end
