(* ===== verification/Resolver.thy ===== *)
theory Resolver
  imports Runtime
begin

text \<open>
  The Target Resolver: \<open>resolve_target\<close> of \<^verbatim>\<open>scripts/notion_client.py\<close> (with its
  \<open>load_config\<close>) and its inlined copy in \<^verbatim>\<open>scripts/create_project.py\<close>. A name
  whose dash-free form is 32 lowercase hex digits is returned as it is; any other name is
  looked up in the \<open>targets\<close> object of \<^verbatim>\<open>notion-config.json\<close>. The lookup is
  modelled with Python's operators on whatever the file holds (\<open>Json\<close>), so the
  exceptions of ill-shaped configurations are branches of the model.
\<close>

section \<open>Definitions\<close>

text \<open>\<open>cleaned = name.replace('-', '')\<close>, then the length and the test
  \<open>c in '0123456789abcdef'\<close> of every character.\<close>

definition is_raw_id :: "string \<Rightarrow> bool" where
  "is_raw_id name =
     (let cleaned = str_replace ''-'' [] name
      in length cleaned = 32 \<and> list_all (\<lambda>c. sublist [c] ''0123456789abcdef'') cleaned)"

text \<open>\<open>load_config\<close>: \<open>CONFIG_PATH.exists()\<close>, then \<open>open\<close> and \<open>json.load\<close>.\<close>

definition load_config :: "'n world \<Rightarrow> ('n, 'n json) run" where
  "load_config w =
     (if \<not> path_exists (files w) (cwd w) (CONFIG_PATH_nc w) then pure (Inl ConfigNotFoundError)
      else open_json w (CONFIG_PATH_nc w) Read_config)"

text \<open>The lookup of a name in a loaded configuration: \<open>config.get('targets', {})\<close>,
  \<open>name not in targets\<close>, the error that lists \<open>targets.keys()\<close>, and
  \<open>targets[name]['id']\<close>.\<close>

definition lookup_target :: "'n json \<Rightarrow> string \<Rightarrow> 'n json result" where
  "lookup_target config name =
     err_bind (py_get config ''targets'' (JObject [])) (\<lambda>targets.
     err_bind (py_contains name targets) (\<lambda>found.
       if \<not> found
       then err_bind (py_keys targets) (\<lambda>ks. Inl (UnknownTargetError name ks))
       else err_bind (py_getitem targets name) (\<lambda>entry. py_getitem entry ''id'')))"

definition resolve_target :: "'n world \<Rightarrow> string \<Rightarrow> ('n, 'n json) run" where
  "resolve_target w name =
     (if is_raw_id name then pure (Inr (JString name))
      else run_bind (load_config w) (\<lambda>config. pure (lookup_target config name)))"

text \<open>The copy in \<^verbatim>\<open>create_project.py\<close>, with the configuration read inline.\<close>

definition resolve_target_cp :: "'n world \<Rightarrow> string \<Rightarrow> ('n, 'n json) run" where
  "resolve_target_cp w name =
     (let cleaned = str_replace ''-'' [] name in
      if length cleaned = 32 \<and> list_all (\<lambda>c. sublist [c] ''0123456789abcdef'') cleaned
      then pure (Inr (JString name))
      else if \<not> path_exists (files w) (cwd w) (CONFIG_PATH w) then pure (Inl ConfigNotFoundError)
      else run_bind (open_json w (CONFIG_PATH w) Read_config) (\<lambda>config.
           pure (err_bind (py_get config ''targets'' (JObject [])) (\<lambda>targets.
                 err_bind (py_contains name targets) (\<lambda>found.
                   if \<not> found
                   then err_bind (py_keys targets) (\<lambda>ks. Inl (UnknownTargetError name ks))
                   else err_bind (py_getitem targets name) (\<lambda>entry. py_getitem entry ''id''))))))"

section \<open>The abstract resolver\<close>

text \<open>
  The spec's contract, over the lookup table a well-shaped configuration denotes: a
  table from friendly names to identifiers, or no configuration file at all.
  \<open>config_view\<close> reads the table off the world; \<open>Ill_shaped\<close> is a file the
  contract does not cover (not readable, not parseable, not an object, \<open>targets\<close> not
  an object, an entry without \<open>id\<close>).
\<close>

datatype 'n config_view = No_config | Table "'n json pydict" | Ill_shaped

fun target_ids :: "'n json pydict \<Rightarrow> 'n json pydict option" where
  "target_ids [] = Some []"
| "target_ids ((k, JObject e) # r) =
     (case (map_of e ''id'', target_ids r) of
        (Some i, Some t) \<Rightarrow> Some ((k, i) # t)
      | _ \<Rightarrow> None)"
| "target_ids ((k, _) # r) = None"

fun target_table :: "'n json \<Rightarrow> 'n json pydict option" where
  "target_table (JObject c) =
     (case map_of c ''targets'' of
        None \<Rightarrow> Some []
      | Some (JObject ts) \<Rightarrow> target_ids ts
      | Some _ \<Rightarrow> None)"
| "target_table _ = None"

definition config_view :: "'n world \<Rightarrow> 'n config_view" where
  "config_view w =
     (if \<not> path_exists (files w) (cwd w) (CONFIG_PATH w) then No_config
      else (case file_text (files w) (cwd w) (CONFIG_PATH w) of
              None \<Rightarrow> Ill_shaped
            | Some txt \<Rightarrow>
                (case json_parse w txt of
                   None \<Rightarrow> Ill_shaped
                 | Some cfg \<Rightarrow> (case target_table cfg of None \<Rightarrow> Ill_shaped | Some t \<Rightarrow> Table t))))"

definition resolve_spec :: "'n config_view \<Rightarrow> string \<Rightarrow> 'n json result" where
  "resolve_spec v name =
     (if is_raw_id name then Inr (JString name)
      else (case v of
              No_config \<Rightarrow> Inl ConfigNotFoundError
            | Table t \<Rightarrow>
                (case map_of t name of
                   Some i \<Rightarrow> Inr i
                 | None \<Rightarrow> Inl (UnknownTargetError name (map fst t)))
            | Ill_shaped \<Rightarrow> Inl TypeError))"

text \<open>Whether \<open>config.get('targets', {})\<close> is a dict, as the contract assumes.\<close>

fun targets_is_dict :: "'n json \<Rightarrow> bool" where
  "targets_is_dict (JObject c) =
     (case map_of c ''targets'' of None \<Rightarrow> True | Some (JObject _) \<Rightarrow> True | Some _ \<Rightarrow> False)"
| "targets_is_dict _ = False"

section \<open>Example configuration\<close>

text \<open>The configuration of the spec's scenario, \<open>{'targets': {'project-db': {'id': 'xyz'}}}\<close>,
  as the parser returns it.\<close>

definition example_config :: "int json" where
  "example_config =
     JObject [(''targets'', JObject [(''project-db'', JObject [(''id'', JString ''xyz'')])])]"

section \<open>Lemmas\<close>

lemma sublist_singleton [str_simps]: "sublist [c] s \<longleftrightarrow> c \<in> set s"
  by (induction s) (auto simp: sublist_Cons_right prefix_Cons)

lemma raw_test_iff:
  "(let cleaned = str_replace ''-'' [] name
    in length cleaned = 32 \<and> list_all (\<lambda>c. sublist [c] hex) cleaned) \<longleftrightarrow>
   length (filter (\<lambda>c. c \<noteq> CHR ''-'') name) = 32 \<and> (\<forall>c \<in> set name. c = CHR ''-'' \<or> c \<in> set hex)"
  by (auto simp: str_replace_single_delete sublist_singleton list_all_iff)

lemma is_raw_id_iff:
  "is_raw_id name \<longleftrightarrow>
     length (filter (\<lambda>c. c \<noteq> CHR ''-'') name) = 32 \<and>
     (\<forall>c \<in> set name. c = CHR ''-'' \<or> c \<in> set ''0123456789abcdef'')"
  unfolding is_raw_id_def by (rule raw_test_iff)

lemma load_config_absent:
  "\<not> path_exists (files w) (cwd w) (CONFIG_PATH w) \<Longrightarrow> load_config w = ([], Inl ConfigNotFoundError)"
  by (simp add: load_config_def pure_def)

lemma load_config_present:
  "file_text (files w) (cwd w) (CONFIG_PATH w) = Some txt \<Longrightarrow>
   load_config w = ([Read_config (CONFIG_PATH w)], json_load w txt)"
  by (simp add: load_config_def file_text_Some open_read_exists run_bind_open_json)

lemma load_config_unreadable:
  "path_exists (files w) (cwd w) (CONFIG_PATH w) \<Longrightarrow> open_read (files w) (cwd w) (CONFIG_PATH w) = Inl e \<Longrightarrow>
   load_config w = ([], Inl e)"
  by (simp add: load_config_def run_bind_open_json)

lemma load_config_unread:
  "file_text (files w) (cwd w) (CONFIG_PATH w) = None \<Longrightarrow> fst (load_config w) = []"
  by (auto simp: load_config_def pure_def open_json_def file_text_def split: sum.splits)

lemma target_ids_keys: "target_ids ts = Some t \<Longrightarrow> map fst t = map fst ts"
  by (induction ts arbitrary: t rule: target_ids.induct) (auto split: option.splits)

lemma target_ids_entry:
  "target_ids ts = Some t \<Longrightarrow> map_of ts k = Some e \<Longrightarrow>
   \<exists>d i. e = JObject d \<and> map_of d ''id'' = Some i \<and> map_of t k = Some i"
  by (induction ts arbitrary: t rule: target_ids.induct) (auto split: option.splits if_splits)

lemma target_ids_absent:
  assumes "target_ids ts = Some t" "map_of ts k = None"
  shows "map_of t k = None"
proof -
  have "set (map fst t) = set (map fst ts)" using target_ids_keys [OF assms(1)] by simp
  then show ?thesis using assms(2) by (simp add: map_of_eq_None_iff)
qed

lemma lookup_target_table:
  assumes "target_table cfg = Some t"
  shows "lookup_target cfg name =
           (case map_of t name of
              Some i \<Rightarrow> Inr i
            | None \<Rightarrow> Inl (UnknownTargetError name (map fst t)))"
proof -
  obtain c where c: "cfg = JObject c" using assms by (cases cfg) auto
  show ?thesis
  proof (cases "map_of c ''targets''")
    case None
    with c show ?thesis using assms by (simp add: lookup_target_def dict_keys_def)
  next
    case (Some x)
    with assms c obtain ts where x: "x = JObject ts" and ts: "target_ids ts = Some t"
      by (cases x) auto
    show ?thesis
    proof (cases "map_of ts name")
      case None
      with ts have "name \<notin> set (map fst ts)" "map_of t name = None"
        by (auto simp: target_ids_absent map_of_eq_None_iff)
      with c Some x ts show ?thesis
        by (simp add: lookup_target_def dict_keys_def target_ids_keys)
    next
      case (Some e)
      with ts obtain d i where "e = JObject d" "map_of d ''id'' = Some i" "map_of t name = Some i"
        by (blast dest: target_ids_entry)
      with c \<open>map_of c ''targets'' = Some x\<close> x Some show ?thesis
        by (auto simp: lookup_target_def dest: map_of_SomeD intro: rev_image_eqI)
    qed
  qed
qed

lemma demo_files_config_dir:
  "open_read (demo_files([''srv'', ''hub'', ''notion-config.json''] \<mapsto> Dir)) cwd'
     (PPath ''/'' [''srv'', ''hub'', ''notion-config.json'']) = Inl IsADirectoryError"
  "path_exists (demo_files([''srv'', ''hub'', ''notion-config.json''] \<mapsto> Dir)) cwd'
     (PPath ''/'' [''srv'', ''hub'', ''notion-config.json''])"
  by (simp_all add: open_read_def path_exists_def demo_files_def walk_step_def)

text \<open>C5. Refinement: on every configuration the contract covers (no file, or a
  \<open>targets\<close> object whose entries all have an \<open>id\<close>), the code computes the
  abstract resolver of the spec over the table the file denotes.\<close>

theorem resolve_target_refines:
  assumes "config_view w \<noteq> Ill_shaped"
  shows "snd (resolve_target w name) = resolve_spec (config_view w) name"
proof (cases "is_raw_id name")
  case True
  then show ?thesis by (simp add: resolve_target_def resolve_spec_def pure_def)
next
  case False
  show ?thesis
  proof (cases "path_exists (files w) (cwd w) (CONFIG_PATH w)")
    case False
    with \<open>\<not> is_raw_id name\<close> show ?thesis
      by (simp add: resolve_target_def resolve_spec_def load_config_absent config_view_def)
  next
    case True
    with assms obtain s cfg t where "file_text (files w) (cwd w) (CONFIG_PATH w) = Some s"
        "json_parse w s = Some cfg" "target_table cfg = Some t"
      by (auto simp: config_view_def split: option.splits)
    with False True show ?thesis
      by (simp add: resolve_target_def resolve_spec_def load_config_present config_view_def
          json_load_def lookup_target_table pure_def)
  qed
qed

text \<open>C1. A raw identifier (32 lowercase hex digits once dashes are removed) is returned
  unchanged, dashes included, without opening the configuration file, whatever the
  world holds.\<close>

theorem resolve_target_raw:
  "is_raw_id name \<Longrightarrow> resolve_target w name = ([], Inr (JString name))"
  by (simp add: resolve_target_def pure_def)

theorem resolve_target_raw_witness:
  "is_raw_id ''a1b2c3d4-e5f6-7890-abcd-ef1234567890'' \<and>
   resolve_target (demo_world example_config JNull) ''a1b2c3d4-e5f6-7890-abcd-ef1234567890'' =
     ([], Inr (JString ''a1b2c3d4-e5f6-7890-abcd-ef1234567890''))"
proof -
  have raw: "is_raw_id ''a1b2c3d4-e5f6-7890-abcd-ef1234567890''"
    by (simp add: is_raw_id_iff)
  show ?thesis using resolve_target_raw [OF raw] raw by simp
qed

text \<open>C2. A friendly name present in the \<open>targets\<close> object resolves to its \<open>id\<close>
  entry, after one read of the configuration file.\<close>

theorem resolve_target_friendly:
  assumes "\<not> is_raw_id name" "file_text (files w) (cwd w) (CONFIG_PATH w) = Some s"
    "json_parse w s = Some (JObject c)"
    "map_of c ''targets'' = Some (JObject ts)" "map_of ts name = Some (JObject e)"
    "map_of e ''id'' = Some i"
  shows "resolve_target w name = ([Read_config (CONFIG_PATH w)], Inr i)"
  using assms
  by (auto simp: resolve_target_def load_config_present json_load_def lookup_target_def pure_def
      dest: map_of_SomeD intro: rev_image_eqI)

theorem resolve_target_friendly_witness:
  "resolve_target (demo_world example_config JNull) ''project-db'' =
     ([Read_config (PPath ''/'' [''srv'', ''hub'', ''notion-config.json''])], Inr (JString ''xyz''))"
  using resolve_target_friendly [where w = "demo_world example_config JNull" and name = "''project-db''"
        and s = "''<config>''" and
        c = "[(''targets'', JObject [(''project-db'', JObject [(''id'', JString ''xyz'')])])]" and
        ts = "[(''project-db'', JObject [(''id'', JString ''xyz'')])]" and
        e = "[(''id'', JString ''xyz'')]" and i = "JString ''xyz''"]
  by (simp add: is_raw_id_iff demo_world_def example_config_def file_text_Some)

text \<open>C3. A friendly name absent from the \<open>targets\<close> object fails with
  \<open>UnknownTargetError\<close>, and the error lists every known name in file order.\<close>

theorem resolve_target_unknown:
  assumes "\<not> is_raw_id name" "file_text (files w) (cwd w) (CONFIG_PATH w) = Some s"
    "json_parse w s = Some (JObject c)"
    "map_of c ''targets'' = Some (JObject ts)" "name \<notin> set (map fst ts)"
  shows "resolve_target w name =
           ([Read_config (CONFIG_PATH w)], Inl (UnknownTargetError name (map fst ts)))"
  using assms
  by (simp add: resolve_target_def load_config_present json_load_def lookup_target_def pure_def
      dict_keys_def)

theorem resolve_target_unknown_witness:
  "resolve_target (demo_world (JObject [(''targets'', JObject [])]) JNull) ''missing-target'' =
     ([Read_config (PPath ''/'' [''srv'', ''hub'', ''notion-config.json''])],
      Inl (UnknownTargetError ''missing-target'' []))"
  using resolve_target_unknown [where w = "demo_world (JObject [(''targets'', JObject [])]) JNull"
      and name = "''missing-target''" and s = "''<config>''" and c = "[(''targets'', JObject [])]"
      and ts = "[]"]
  by (simp add: is_raw_id_iff demo_world_def file_text_Some)

text \<open>C4. A name that is not a raw identifier fails with \<open>ConfigNotFoundError\<close>
  when there is no configuration file, and nothing is read.\<close>

theorem resolve_target_no_config:
  "\<not> is_raw_id name \<Longrightarrow> \<not> path_exists (files w) (cwd w) (CONFIG_PATH w) \<Longrightarrow>
   resolve_target w name = ([], Inl ConfigNotFoundError)"
  by (simp add: resolve_target_def load_config_def pure_def)

theorem resolve_target_no_config_witness:
  "resolve_target ((demo_world example_config JNull)\<lparr>files := (\<lambda>_. None)\<rparr>) ''project-db'' =
     ([], Inl ConfigNotFoundError)"
  by (rule resolve_target_no_config) (simp_all add: is_raw_id_iff demo_world_def path_exists_def)

theorem resolve_target_refines_witness:
  "config_view (demo_world example_config JNull) = Table [(''project-db'', JString ''xyz'')] \<and>
   snd (resolve_target (demo_world example_config JNull) ''project-db'') =
     resolve_spec (Table [(''project-db'', JString ''xyz'')]) ''project-db''"
proof -
  have v: "config_view (demo_world example_config JNull) = Table [(''project-db'', JString ''xyz'')]"
    by (simp add: config_view_def demo_world_def example_config_def file_text_def
        open_read_exists [of _ _ _ "''<config>''"])
  show ?thesis
    using resolve_target_refines [of "demo_world example_config JNull" "''project-db''"] v by simp
qed

text \<open>C6. Reads: a resolution opens the configuration file at most once, and only for a
  name that is not a raw identifier when the path reaches a readable file.\<close>

theorem resolve_target_reads:
  "fst (resolve_target w name) =
     (if is_raw_id name \<or> file_text (files w) (cwd w) (CONFIG_PATH w) = None then []
      else [Read_config (CONFIG_PATH w)])"
proof (cases "is_raw_id name")
  case False
  then show ?thesis
  proof (cases "file_text (files w) (cwd w) (CONFIG_PATH w)")
    case None
    then have "fst (load_config w) = []" by (rule load_config_unread)
    with False None show ?thesis
      by (cases "load_config w") (simp add: resolve_target_def run_bind_def pure_def split: sum.splits)
  qed (simp add: resolve_target_def load_config_present run_bind_def pure_def split: sum.splits)
qed (simp add: resolve_target_def pure_def)

text \<open>C8. When the configuration is not an object, or its \<open>targets\<close> entry is not an
  object, a friendly name ends with a Python \<open>TypeError\<close> or \<open>AttributeError\<close>, never
  with the \<open>UnknownTargetError\<close> of the contract.\<close>

theorem resolve_target_targets_not_dict:
  assumes "\<not> is_raw_id name" "file_text (files w) (cwd w) (CONFIG_PATH w) = Some s"
    "json_parse w s = Some cfg" "\<not> targets_is_dict cfg"
  shows "snd (resolve_target w name) \<in> {Inl TypeError, Inl AttributeError}"
proof -
  have "lookup_target cfg name \<in> {Inl TypeError, Inl AttributeError}"
  proof (cases cfg)
    case (JObject c)
    with assms(4) obtain x where x: "map_of c ''targets'' = Some x" "\<forall>d. x \<noteq> JObject d"
      by (auto split: option.splits json.splits)
    then show ?thesis using JObject
      by (cases x) (auto simp: lookup_target_def)
  qed (simp_all add: lookup_target_def)
  with assms(1-3) show ?thesis
    by (simp add: resolve_target_def load_config_present json_load_def pure_def)
qed

theorem resolve_target_targets_not_dict_witness:
  "snd (resolve_target (demo_world (JObject [(''targets'', JArray [JString ''project-db''])]) JNull)
         ''project-db'') \<in> {Inl TypeError, Inl AttributeError}"
  by (rule resolve_target_targets_not_dict [where s = "''<config>''"
        and cfg = "JObject [(''targets'', JArray [JString ''project-db''])]"])
     (simp_all add: is_raw_id_iff demo_world_def file_text_Some)

text \<open>C26. A configuration path that exists but is a directory passes the existence check
  of \<open>load_config\<close>; \<open>open\<close> then raises \<open>IsADirectoryError\<close>, an exception the
  contract does not name, and nothing is read.\<close>

theorem resolve_target_config_dir:
  assumes "\<not> is_raw_id name" "os_locate (files w) (cwd w) (CONFIG_PATH w) = Inr q"
    "files w q = Some Dir"
  shows "resolve_target w name = ([], Inl IsADirectoryError)"
proof -
  from assms(2,3) have "path_exists (files w) (cwd w) (CONFIG_PATH w)"
    "open_read (files w) (cwd w) (CONFIG_PATH w) = Inl IsADirectoryError"
    by (simp_all add: path_exists_def open_read_def)
  with assms(1) show ?thesis
    by (simp add: resolve_target_def load_config_unreadable)
qed

theorem resolve_target_config_dir_witness:
  "resolve_target ((demo_world example_config JNull)\<lparr>files := demo_files([''srv'', ''hub'', ''notion-config.json''] \<mapsto> Dir)\<rparr>)
     ''project-db'' = ([], Inl IsADirectoryError)"
  by (rule resolve_target_config_dir [where q = "[''srv'', ''hub'', ''notion-config.json'']"])
     (simp_all add: is_raw_id_iff demo_world_def demo_files_def walk_step_def)

end
