(* ===== verification/Template.thy ===== *)
theory Template
  imports Runtime
begin

text \<open>
  The Template Engine: \<open>load_template\<close> (of \<^verbatim>\<open>scripts/create_project.py\<close>, and
  its copy \<open>load_template_nc\<close> of \<^verbatim>\<open>scripts/notion_client.py\<close>), \<open>replace_placeholders\<close> and
  \<open>create_project_page\<close> of \<^verbatim>\<open>scripts/create_project.py\<close>. A template is any
  value the parser returns; substitution replaces every \<open>{{KEY}}\<close> token of every string
  leaf, one key after the other in the order of the replacement dict, and never touches
  the keys of an object. The page body then gets a \<open>parent\<close> and an \<open>icon\<close> and loses
  its \<open>object\<close> field before it is sent.
\<close>

section \<open>Definitions\<close>

text \<open>\<open>load_template\<close>: \<open>path = TEMPLATES_DIR / f'{name}.json'\<close>, the existence
  check, then \<open>open\<close> and \<open>json.load\<close>.\<close>

definition load_template :: "'n world \<Rightarrow> string \<Rightarrow> ('n, 'n json) run" where
  "load_template w name =
     (let path = template_path w name in
      if \<not> path_exists (files w) (cwd w) path then pure (Inl (TemplateNotFoundError name))
      else open_json w path Read_template)"

text \<open>The copy in \<^verbatim>\<open>notion_client.py\<close>, under its own \<open>TEMPLATES_DIR\<close>.\<close>

definition load_template_nc :: "'n world \<Rightarrow> string \<Rightarrow> ('n, 'n json) run" where
  "load_template_nc w name =
     (let path = path_div (TEMPLATES_DIR_nc w) (name @ ''.json'') in
      if \<not> path_exists (files w) (cwd w) path then pure (Inl (TemplateNotFoundError name))
      else open_json w path Read_template)"

text \<open>The loop over \<open>replacements.items()\<close> on one string: \<open>obj\<close> is rebound to
  \<open>obj.replace(f'{{{{{key}}}}}', value)\<close>, the key between doubled braces, for each
  key in turn.\<close>

definition replace_str :: "(string \<times> string) list \<Rightarrow> string \<Rightarrow> string" where
  "replace_str replacements obj =
     foldl (\<lambda>obj (key, value). str_replace (''{{'' @ key @ ''}}'') value obj) obj replacements"

fun replace_placeholders :: "'n json \<Rightarrow> (string \<times> string) list \<Rightarrow> 'n json" where
  "replace_placeholders (JString s) r = JString (replace_str r s)"
| "replace_placeholders (JArray xs) r = JArray (map (\<lambda>x. replace_placeholders x r) xs)"
| "replace_placeholders (JObject d) r = JObject (map (\<lambda>(k, v). (k, replace_placeholders v r)) d)"
| "replace_placeholders x r = x"

text \<open>\<open>create_project_page\<close>: load the template, substitute \<open>PROJECT_NAME\<close> and
  \<open>DATE\<close> (in that order), set \<open>parent\<close> and \<open>icon\<close>, drop \<open>object\<close>, and
  call \<open>client.pages.create\<close> with the keyword arguments \<open>**body\<close>. \<open>copy.deepcopy\<close> is the identity on values.\<close>

definition create_project_page ::
  "'n world \<Rightarrow> 'n json \<Rightarrow> string \<Rightarrow> string \<Rightarrow> string \<Rightarrow> ('n, 'n json) run" where
  "create_project_page w parent_id project_name template_name icon =
     run_bind (load_template w template_name) (\<lambda>template.
     let body = template;
         replacements = [(''PROJECT_NAME'', project_name), (''DATE'', today w)];
         body = replace_placeholders body replacements
     in run_bind (pure (py_setitem body ''parent'' (JObject [(''page_id'', parent_id)]))) (\<lambda>body.
        run_bind (pure (py_setitem body ''icon''
                          (JObject [(''type'', JString ''emoji''), (''emoji'', JString icon)]))) (\<lambda>body.
        run_bind (pure (py_pop body ''object'')) (\<lambda>body.
        run_bind (pure (py_kwargs body)) (\<lambda>kwargs.
        api_call w (Pages_create kwargs))))))"

section \<open>Views of a document\<close>

text \<open>The string leaves of a document, in traversal order (object keys excluded).\<close>

fun strings_of :: "'n json \<Rightarrow> string list" where
  "strings_of (JString s) = [s]"
| "strings_of (JArray xs) = concat (map strings_of xs)"
| "strings_of (JObject d) = concat (map (\<lambda>(k, v). strings_of v) d)"
| "strings_of _ = []"

text \<open>The document with every string leaf emptied: its shape, keys and scalars.\<close>

fun erase_strings :: "'n json \<Rightarrow> 'n json" where
  "erase_strings (JString s) = JString []"
| "erase_strings (JArray xs) = JArray (map erase_strings xs)"
| "erase_strings (JObject d) = JObject (map (\<lambda>(k, v). (k, erase_strings v)) d)"
| "erase_strings x = x"

fun is_object :: "'n json \<Rightarrow> bool" where
  "is_object (JObject _) = True"
| "is_object _ = False"

section \<open>Example templates\<close>

text \<open>The template of the spec's scenario:
  \<open>{'properties': {'title': {'title': [{'text': {'content': '{{PROJECT_NAME}}'}}]}}}\<close>.\<close>

definition title_template :: "string \<Rightarrow> int json" where
  "title_template content =
     JObject [(''properties'', JObject [(''title'', JObject [(''title'',
       JArray [JObject [(''text'', JObject [(''content'', JString content)])]])])])]"

section \<open>Lemmas\<close>

lemma replace_str_Nil [simp]: "replace_str [] s = s"
  by (simp add: replace_str_def)

lemma replace_str_Cons [simp]:
  "replace_str ((k, v) # r) s = replace_str r (str_replace (''{{'' @ k @ ''}}'') v s)"
  by (simp add: replace_str_def)

lemma replace_str_append: "replace_str (r1 @ r2) s = replace_str r2 (replace_str r1 s)"
  by (simp add: replace_str_def)

lemma replace_str_absent:
  "\<forall>(k, v) \<in> set r. \<not> sublist (''{{'' @ k @ ''}}'') s \<Longrightarrow> replace_str r s = s"
  by (induction r) (auto simp: str_replace_absent)

text \<open>The two copies are one function; the component proofs use the one of
  \<^verbatim>\<open>create_project.py\<close>.\<close>

lemma load_template_nc_cp [simp]: "load_template_nc = load_template"
  by (simp add: fun_eq_iff load_template_nc_def load_template_def template_path_def)

lemma load_template_run:
  "load_template w name =
     (if \<not> path_exists (files w) (cwd w) (template_path w name) then ([], Inl (TemplateNotFoundError name))
      else (case open_read (files w) (cwd w) (template_path w name) of
              Inl e \<Rightarrow> ([], Inl e)
            | Inr s \<Rightarrow> ([Read_template (template_path w name)], json_load w s)))"
  by (simp add: load_template_def open_json_def pure_def split: sum.splits)

lemma create_project_page_run:
  "create_project_page w pid pname name icon =
     (if \<not> path_exists (files w) (cwd w) (template_path w name) then ([], Inl (TemplateNotFoundError name))
      else (case open_read (files w) (cwd w) (template_path w name) of
        Inl e \<Rightarrow> ([], Inl e)
      | Inr s \<Rightarrow>
          (case json_parse w s of
             None \<Rightarrow> ([Read_template (template_path w name)], Inl JSONDecodeError)
           | Some (JObject d) \<Rightarrow>
               (let kw = dict_pop ''object''
                          (dict_set ''icon'' (JObject [(''type'', JString ''emoji''), (''emoji'', JString icon)])
                            (dict_set ''parent'' (JObject [(''page_id'', pid)])
                              (map (\<lambda>(k, v). (k, replace_placeholders v
                                         [(''PROJECT_NAME'', pname), (''DATE'', today w)])) d)))
                in ([Read_template (template_path w name), Api_call (Pages_create kw)],
                    (case api w (Pages_create kw) of
                       Inl e \<Rightarrow> Inl (APIResponseError e) | Inr r \<Rightarrow> Inr r)))
           | Some _ \<Rightarrow> ([Read_template (template_path w name)], Inl TypeError))))"
  by (simp add: create_project_page_def load_template_run json_load_def pure_def api_call_def
      Let_def split: option.splits json.splits sum.splits)

lemma os_walk_snoc:
  "os_walk fs cur (xs @ [x]) =
     (case os_walk fs cur xs of
        Inl e \<Rightarrow> Inl e
      | Inr q \<Rightarrow> (case fs q of
                   Some Dir \<Rightarrow> Inr (walk_step q x)
                 | Some (File _) \<Rightarrow> Inl NotADirectoryError
                 | None \<Rightarrow> Inl FileNotFoundError))"
  by (induction xs arbitrary: cur) (auto split: option.splits fs_entry.splits sum.splits)

lemma json_name_not_dots: "name @ ''.json'' \<noteq> ''..''" "name @ ''.json'' \<noteq> ''.''" "name @ ''.json'' \<noteq> []"
  by (cases name; simp)+

section \<open>Properties of substitution\<close>

text \<open>C9. A document in which no string leaf contains the token of any key of the
  replacement set is returned unchanged.\<close>

theorem replace_placeholders_unmatched:
  "\<forall>s \<in> set (strings_of d). \<forall>(k, v) \<in> set r. \<not> sublist (''{{'' @ k @ ''}}'') s \<Longrightarrow>
   replace_placeholders d r = d"
proof (induction d r rule: replace_placeholders.induct)
  case (1 s r)
  then show ?case by (simp add: replace_str_absent)
next
  case (2 xs r)
  then show ?case by (auto intro: map_idI)
next
  case (3 d r)
  then show ?case by (fastforce intro: map_idI)
qed simp_all

theorem replace_placeholders_unmatched_witness:
  "replace_placeholders (title_template ''{{OTHER}} Launch'') [(''PROJECT_NAME'', ''Foo'')] =
   title_template ''{{OTHER}} Launch''"
  by (rule replace_placeholders_unmatched)
     (simp add: title_template_def sublist_code)

text \<open>C10. Substitution changes string leaves only: the document with its strings
  emptied (constructors, object keys in order, array lengths, numbers, booleans) is the
  same before and after.\<close>

theorem replace_placeholders_shape:
  "erase_strings (replace_placeholders d r) = erase_strings d"
  by (induction d r rule: replace_placeholders.induct) auto

text \<open>C11. Keys are applied one after the other in the order of the replacement dict:
  substituting with \<open>r1 @ r2\<close> is substituting with \<open>r1\<close>, then with \<open>r2\<close>.\<close>

theorem replace_placeholders_in_order:
  "replace_placeholders d (r1 @ r2) = replace_placeholders (replace_placeholders d r1) r2"
  by (induction d r1 rule: replace_placeholders.induct) (auto simp: replace_str_append)

section \<open>Properties of the page request\<close>

text \<open>C13. Every request \<open>create_project_page\<close> sends is a page creation whose
  keyword arguments have no \<open>object\<close>, the given parent and the emoji icon.\<close>

theorem create_project_page_request:
  assumes "Api_call req \<in> set (fst (create_project_page w pid pname name icon))"
  shows "\<exists>kw. req = Pages_create kw \<and> map_of kw ''object'' = None \<and>
           map_of kw ''parent'' = Some (JObject [(''page_id'', pid)]) \<and>
           map_of kw ''icon'' = Some (JObject [(''type'', JString ''emoji''), (''emoji'', JString icon)])"
  using assms
  by (auto simp: create_project_page_run Let_def map_of_dict_pop map_of_dict_set
      split: if_splits option.splits json.splits sum.splits)

theorem create_project_page_request_witness:
  "\<exists>kw :: int json pydict. Pages_create [(''parent'', JObject [(''page_id'', JString ''p1'')]),
      (''icon'', JObject [(''type'', JString ''emoji''), (''emoji'', JString ''R'')])] =
         Pages_create kw \<and> map_of kw ''object'' = None \<and>
      map_of kw ''parent'' = Some (JObject [(''page_id'', JString ''p1'')]) \<and>
      map_of kw ''icon'' = Some (JObject [(''type'', JString ''emoji''), (''emoji'', JString ''R'')])"
  by (rule create_project_page_request [where w = "demo_world JNull (JObject [(''object'', JString ''page'')])"
        and name = "''project-page''" and pname = "''Apollo''"])
     (simp add: create_project_page_run demo_world_def dict_set_def dict_pop_def)

text \<open>C14. Fail fast: \<open>create_project_page\<close> sends a request exactly when the template
  file exists and parses to an object; every other failure (missing template, parse
  error, a template that is not an object) happens before any request.\<close>

theorem create_project_page_fail_fast:
  "(\<exists>req. Api_call req \<in> set (fst (create_project_page w pid pname name icon))) \<longleftrightarrow>
   (\<exists>s d. file_text (files w) (cwd w) (template_path w name) = Some s \<and> json_parse w s = Some (JObject d))"
  by (auto simp: create_project_page_run file_text_Some Let_def dest: open_read_exists
      split: option.splits json.splits sum.splits)

text \<open>C15. A template name with no file under \<^verbatim>\<open>templates/\<close> fails with
  \<open>TemplateNotFoundError\<close> before anything is read or sent.\<close>

theorem create_project_page_no_template:
  "\<not> path_exists (files w) (cwd w) (template_path w name) \<Longrightarrow>
   create_project_page w pid pname name icon = ([], Inl (TemplateNotFoundError name))"
  by (simp add: create_project_page_run)

theorem create_project_page_no_template_witness:
  "create_project_page (demo_world JNull JNull) (JString ''p1'') ''Apollo'' ''roadmap'' ''R'' =
   ([], Inl (TemplateNotFoundError ''roadmap''))"
  by (rule create_project_page_no_template)
     (simp add: path_exists_def demo_files_def walk_step_def)

text \<open>C12. Values are not protected from later keys: \<open>create_project_page\<close> substitutes
  \<open>PROJECT_NAME\<close> before \<open>DATE\<close>, so a project name that ends in \<open>{{DATE}}\<close>
  reaches the service with today's date in its place, in whatever field of the template
  holds \<open>{{PROJECT_NAME}}\<close>, on every world.\<close>

theorem create_project_page_name_expanded:
  assumes "file_text (files w) (cwd w) (template_path w name) = Some s"
    and "json_parse w s = Some (JObject [(k, JString ''{{PROJECT_NAME}}'')])"
    and "k \<notin> {''parent'', ''icon'', ''object''}" and "CHR ''{'' \<notin> set pre"
  shows "\<exists>kw. Api_call (Pages_create kw) \<in> set (fst (create_project_page w pid (pre @ ''{{DATE}}'') name icon)) \<and>
           map_of kw k = Some (JString (pre @ today w))"
proof -
  have n: "str_replace ''{{DATE}}'' (today w)
      (str_replace ''{{PROJECT_NAME}}'' (pre @ ''{{DATE}}'') ''{{PROJECT_NAME}}'') = pre @ today w"
    using str_replace_prefix [of "''{{PROJECT_NAME}}''" "pre @ ''{{DATE}}''" "[]"]
      str_replace_suffix [of "''{{DATE}}''" pre "today w"] assms(4)
    by (simp add: str_replace_def)
  show ?thesis
    using assms(1-3) n open_read_exists [of "files w" "cwd w" "template_path w name" s]
    by (simp add: create_project_page_def load_template_run json_load_def pure_def api_call_def
        file_text_Some Let_def map_of_dict_pop map_of_dict_set)
qed

theorem create_project_page_name_expanded_witness:
  "file_text (files (demo_world JNull (JObject [(''title'', JString ''{{PROJECT_NAME}}'')])))
     (cwd (demo_world JNull (JObject [(''title'', JString ''{{PROJECT_NAME}}'')])))
     (template_path (demo_world JNull (JObject [(''title'', JString ''{{PROJECT_NAME}}'')])) ''project-page'') =
     Some ''<template>'' \<and>
   json_parse (demo_world JNull (JObject [(''title'', JString ''{{PROJECT_NAME}}'')])) ''<template>'' =
     Some (JObject [(''title'', JString ''{{PROJECT_NAME}}'')]) \<and>
   (\<exists>kw. Api_call (Pages_create kw) \<in> set (fst (create_project_page
        (demo_world JNull (JObject [(''title'', JString ''{{PROJECT_NAME}}'')])) (JString ''p1'')
        (''Launch '' @ ''{{DATE}}'') ''project-page'' ''R'')) \<and>
      map_of kw ''title'' = Some (JString (''Launch '' @ ''2026-11-09'')))"
proof -
  let ?w = "demo_world JNull (JObject [(''title'', JString ''{{PROJECT_NAME}}'')]) :: int world"
  have f: "file_text (files ?w) (cwd ?w) (template_path ?w ''project-page'') = Some ''<template>''"
    by (simp add: demo_world_def)
  have p: "json_parse ?w ''<template>'' = Some (JObject [(''title'', JString ''{{PROJECT_NAME}}'')])"
    by (simp add: demo_world_def)
  have "today ?w = ''2026-11-09''" by (simp add: demo_world_def)
  with create_project_page_name_expanded [OF f p, of "''Launch ''"] f p show ?thesis by simp
qed

section \<open>Where a template name leads\<close>

text \<open>C27. A template name without a slash reaches the entry \<open><name>.json\<close> directly
  inside the directory the OS finds for \<^verbatim>\<open>templates\<close>, whatever the rest of the name.\<close>

theorem template_path_inside:
  assumes "CHR ''/'' \<notin> set name" "os_locate (files w) (cwd w) (TEMPLATES_DIR w) = Inr q"
    "files w q = Some Dir"
  shows "os_locate (files w) (cwd w) (template_path w name) = Inr (q @ [name @ ''.json''])"
proof (cases "TEMPLATES_DIR w")
  case (PPath a ps)
  with assms show ?thesis
    by (simp add: template_path_def path_div_name os_walk_snoc walk_step_def json_name_not_dots)
qed

theorem template_path_inside_witness:
  "os_locate demo_files [''srv'', ''hub''] (template_path (demo_world JNull JNull) ''project-page'') =
     Inr [''srv'', ''hub'', ''templates'', ''project-page.json'']"
  using template_path_inside [where w = "demo_world JNull JNull" and name = "''project-page''"
      and q = "[''srv'', ''hub'', ''templates'']"]
  by (simp add: TEMPLATES_DIR_def path_div_name demo_files_def walk_step_def)

text \<open>C28. A template name with a slash is not confined to \<^verbatim>\<open>templates\<close>:
  \<open>../notion-config\<close> reaches the configuration file, and \<open>load_template\<close> returns the
  configuration as the template.\<close>

theorem load_template_traversal:
  "load_template (demo_world cfg tpl) ''../notion-config'' =
     ([Read_template (PPath ''/'' [''srv'', ''hub'', ''templates'', ''..'', ''notion-config.json''])], Inr cfg)"
proof -
  have p: "template_path (demo_world cfg tpl) ''../notion-config'' =
      PPath ''/'' [''srv'', ''hub'', ''templates'', ''..'', ''notion-config.json'']"
    by (simp add: template_path_def TEMPLATES_DIR_def path_div_name path_div_def path_anchor_def
        path_parts_def str_split_def)
  have "open_read demo_files [''srv'', ''hub''] (PPath ''/'' [''srv'', ''hub'', ''templates'', ''..'', ''notion-config.json'']) =
      Inr ''<config>''"
    by (simp add: open_read_def demo_files_def walk_step_def)
  with p show ?thesis
    by (simp add: load_template_run open_read_exists json_load_def demo_world_def)
qed

end
