(* ===== verification/Commands.thy ===== *)
theory Commands
  imports Resolver Template
begin

text \<open>
  The entry points: \<open>get_client\<close> (and its copy \<open>get_client_cp\<close>), the six subcommand handlers of
  \<^verbatim>\<open>notion_client.py\<close> and the dispatch of its \<open>main\<close>, and \<open>main\<close> of
  \<^verbatim>\<open>create_project.py\<close>. The arguments \<open>argparse\<close> produces are the input
  (\<open>nc_command\<close>, one constructor per subparser with its arguments in declaration
  order; an optional argument not given is \<open>None\<close>). Each handler is the sequence of its
  statements over the world, and its run lists the files it opened, the request it sent
  and what it printed.
\<close>

section \<open>Definitions\<close>

text \<open>
  The entry points: \<open>get_client\<close> (both scripts), the six subcommand handlers of
  \<^verbatim>\<open>notion_client.py\<close> and the dispatch of its \<open>main\<close>, and \<open>main\<close> of
  \<^verbatim>\<open>create_project.py\<close>. The arguments \<open>argparse\<close> produces are the input
  (\<open>nc_command\<close>, one constructor per subparser with its arguments in declaration
  order; an optional argument not given is \<open>None\<close>). Each handler is the sequence of its
  statements over the world, and its run lists the files it opened, the request it sent
  and what it printed.
\<close>

text \<open>\<open>get_client\<close>: \<open>if not token\<close> rejects an absent and an empty token; the client
  is the token it authenticates with.\<close>

definition get_client :: "'n world \<Rightarrow> ('n, string) run" where
  "get_client w =
     (case env_token w of
        None \<Rightarrow> pure (Inl MissingCredentialError)
      | Some token \<Rightarrow> if token = [] then pure (Inl MissingCredentialError) else pure (Inr token))"

text \<open>The copy in \<^verbatim>\<open>create_project.py\<close>.\<close>

definition get_client_cp :: "'n world \<Rightarrow> ('n, string) run" where
  "get_client_cp w =
     (case env_token w of
        None \<Rightarrow> pure (Inl MissingCredentialError)
      | Some token \<Rightarrow> if token = [] then pure (Inl MissingCredentialError) else pure (Inr token))"

text \<open>The truth value of an optional string argument (\<open>if args.template:\<close>), and
  \<open>args.title or default\<close>.\<close>

definition arg_given :: "string option \<Rightarrow> bool" where
  "arg_given a = (case a of None \<Rightarrow> False | Some s \<Rightarrow> s \<noteq> [])"

definition arg_or :: "string option \<Rightarrow> string \<Rightarrow> string" where
  "arg_or a dflt = (case a of Some s \<Rightarrow> if s = [] then dflt else s | None \<Rightarrow> dflt)"

definition text_title :: "string \<Rightarrow> 'n json" where
  "text_title content =
     JObject [(''type'', JString ''text''), (''text'', JObject [(''content'', JString content)])]"

text \<open>The bodies \<open>create-page\<close> and \<open>create-db\<close> build when no template is given.\<close>

definition default_page_body :: "string option \<Rightarrow> 'n json" where
  "default_page_body title =
     JObject [(''properties'', JObject [(''title'', JObject [(''title'',
                JArray [text_title (arg_or title ''Untitled'')])])]),
              (''children'', JArray [])]"

definition default_db_body :: "string option \<Rightarrow> 'n json" where
  "default_db_body title =
     JObject [(''title'', JArray [text_title (arg_or title ''Untitled Database'')]),
              (''properties'', JObject [(''Name'', JObject [(''title'', JObject [])])])]"

text \<open>\<open>create-page\<close>: the template (read by the copy \<open>load_template_nc\<close> of this script) is
  sent as it is (no substitution), with a parent.\<close>

definition cmd_create_page ::
  "'n world \<Rightarrow> string \<Rightarrow> string option \<Rightarrow> string option \<Rightarrow> ('n, unit) run" where
  "cmd_create_page w target template title =
     run_bind (get_client w) (\<lambda>client.
     run_bind (resolve_target w target) (\<lambda>parent_id.
     run_bind (if arg_given template then load_template_nc w (the template)
               else pure (Inr (default_page_body title))) (\<lambda>body.
     run_bind (pure (py_setitem body ''parent'' (JObject [(''page_id'', parent_id)]))) (\<lambda>body.
     run_bind (pure (py_kwargs body)) (\<lambda>kwargs.
     run_bind (api_call w (Pages_create kwargs)) (\<lambda>result.
     emit (Print_json result)))))))"

text \<open>\<open>create-db\<close>: as \<open>create-page\<close>, and the \<open>object\<close> field is dropped.\<close>

definition cmd_create_db ::
  "'n world \<Rightarrow> string \<Rightarrow> string option \<Rightarrow> string option \<Rightarrow> ('n, unit) run" where
  "cmd_create_db w target template title =
     run_bind (get_client w) (\<lambda>client.
     run_bind (resolve_target w target) (\<lambda>parent_id.
     run_bind (if arg_given template then load_template_nc w (the template)
               else pure (Inr (default_db_body title))) (\<lambda>body.
     run_bind (pure (py_setitem body ''parent'' (JObject [(''page_id'', parent_id)]))) (\<lambda>body.
     run_bind (pure (py_pop body ''object'')) (\<lambda>body.
     run_bind (pure (py_kwargs body)) (\<lambda>kwargs.
     run_bind (api_call w (Databases_create kwargs)) (\<lambda>result.
     emit (Print_json result))))))))"

definition cmd_update_page :: "'n world \<Rightarrow> string \<Rightarrow> string \<Rightarrow> ('n, unit) run" where
  "cmd_update_page w target properties =
     run_bind (get_client w) (\<lambda>client.
     run_bind (resolve_target w target) (\<lambda>page_id.
     run_bind (pure (json_load w properties)) (\<lambda>props.
     run_bind (api_call w (Pages_update page_id props)) (\<lambda>result.
     emit (Print_json result)))))"

text \<open>\<open>query-db\<close>: \<open>database_id\<close> first, then \<open>filter\<close> and \<open>sorts\<close> when given.\<close>

definition cmd_query_db ::
  "'n world \<Rightarrow> string \<Rightarrow> string option \<Rightarrow> string option \<Rightarrow> ('n, unit) run" where
  "cmd_query_db w target filt sorts =
     run_bind (get_client w) (\<lambda>client.
     run_bind (resolve_target w target) (\<lambda>db_id.
     let kwargs = [(''database_id'', db_id)] in
     run_bind (if arg_given filt
               then pure (map_sum id (\<lambda>f. dict_set ''filter'' f kwargs) (json_load w (the filt)))
               else pure (Inr kwargs)) (\<lambda>kwargs.
     run_bind (if arg_given sorts
               then pure (map_sum id (\<lambda>s. dict_set ''sorts'' s kwargs) (json_load w (the sorts)))
               else pure (Inr kwargs)) (\<lambda>kwargs.
     run_bind (api_call w (Databases_query kwargs)) (\<lambda>result.
     emit (Print_json result))))))"

definition cmd_append_blocks :: "'n world \<Rightarrow> string \<Rightarrow> string \<Rightarrow> ('n, unit) run" where
  "cmd_append_blocks w target blocks =
     run_bind (get_client w) (\<lambda>client.
     run_bind (resolve_target w target) (\<lambda>page_id.
     run_bind (pure (json_load w blocks)) (\<lambda>children.
     run_bind (api_call w (Blocks_children_append page_id children)) (\<lambda>result.
     emit (Print_json result)))))"

definition cmd_get_page :: "'n world \<Rightarrow> string \<Rightarrow> ('n, unit) run" where
  "cmd_get_page w target =
     run_bind (get_client w) (\<lambda>client.
     run_bind (resolve_target w target) (\<lambda>page_id.
     run_bind (api_call w (Pages_retrieve page_id)) (\<lambda>page.
     emit (Print_json page))))"

text \<open>The parsed command line of \<^verbatim>\<open>notion_client.py\<close>, one constructor per subparser
  (\<open>--target\<close> first, then the subparser's other arguments in declaration order), and the
  dispatch \<open>args.func(args)\<close>.\<close>

datatype nc_command =
    Create_page string "string option" "string option"
  | Create_db string "string option" "string option"
  | Update_page string string
  | Query_db string "string option" "string option"
  | Append_blocks string string
  | Get_page string

fun nc_main :: "'n world \<Rightarrow> nc_command \<Rightarrow> ('n, unit) run" where
  "nc_main w (Create_page target template title) = cmd_create_page w target template title"
| "nc_main w (Create_db target template title) = cmd_create_db w target template title"
| "nc_main w (Update_page target properties) = cmd_update_page w target properties"
| "nc_main w (Query_db target filt sorts) = cmd_query_db w target filt sorts"
| "nc_main w (Append_blocks target blocks) = cmd_append_blocks w target blocks"
| "nc_main w (Get_page target) = cmd_get_page w target"

text \<open>\<open>main\<close> of \<^verbatim>\<open>create_project.py\<close>: the project name, \<open>--parent\<close>,
  \<open>--template\<close> and \<open>--icon\<close> (argparse supplies the defaults \<open>project-page\<close> and
  the rocket emoji). It prints the plan before it creates the page, and the page's
  \<open>id\<close> and \<open>url\<close> after.\<close>

definition cp_main :: "'n world \<Rightarrow> string \<Rightarrow> string \<Rightarrow> string \<Rightarrow> string \<Rightarrow> ('n, 'n json) run" where
  "cp_main w name parent template icon =
     run_bind (get_client_cp w) (\<lambda>client.
     run_bind (resolve_target_cp w parent) (\<lambda>parent_id.
     run_bind (emit (Print [Txt ''Creating project page: '', Txt name])) (\<lambda>_.
     run_bind (emit (Print [Txt ''  Parent: '', Txt parent, Txt '' ('', Str_of parent_id, Txt '')''])) (\<lambda>_.
     run_bind (emit (Print [Txt ''  Template: '', Txt template])) (\<lambda>_.
     run_bind (emit (Print [Txt ''  Icon: '', Txt icon])) (\<lambda>_.
     run_bind (emit (Print [])) (\<lambda>_.
     run_bind (create_project_page w parent_id name template icon) (\<lambda>result.
     run_bind (pure (py_getitem result ''id'')) (\<lambda>page_id.
     run_bind (pure (py_get result ''url'' (JString []))) (\<lambda>url.
     run_bind (emit (Print [Txt ''Project page created!''])) (\<lambda>_.
     run_bind (emit (Print [Txt ''  ID:  '', Str_of page_id])) (\<lambda>_.
     run_bind (emit (Print [Txt ''  URL: '', Str_of url])) (\<lambda>_.
     pure (Inr result))))))))))))))"

section \<open>Lemmas and request bodies\<close>

lemma run_bind_if [simp]:
  "run_bind (if c then m1 else m2) f = (if c then run_bind m1 f else run_bind m2 f)"
  by simp

lemma snd_emit [simp]: "snd (emit ev) = Inr ()"
  by (simp add: emit_def)

text \<open>The two copies of \<open>get_client\<close> are one function; the proofs use the one of
  \<^verbatim>\<open>notion_client.py\<close>.\<close>

lemma get_client_cp_nc [simp]: "get_client_cp = get_client"
  by (simp add: fun_eq_iff get_client_cp_def get_client_def)

lemma get_client_token: "env_token w = Some tok \<Longrightarrow> tok \<noteq> [] \<Longrightarrow> get_client w = ([], Inr tok)"
  by (simp add: get_client_def pure_def)

text \<open>C16. Without a token (absent or empty), both entry points stop at \<open>get_client\<close> with \<open>MissingCredentialError\<close>, before any file is read or request sent.\<close>

theorem missing_token_first:
  assumes "env_token w = None \<or> env_token w = Some []"
  shows "nc_main w c = ([], Inl MissingCredentialError) \<and>
         cp_main w name parent template icon = ([], Inl MissingCredentialError)"
proof -
  from assms have gc: "get_client w = ([], Inl MissingCredentialError)"
    by (auto simp: get_client_def pure_def)
  then show ?thesis
    by (cases c) (simp_all add: cmd_create_page_def cmd_create_db_def cmd_update_page_def
        cmd_query_db_def cmd_append_blocks_def cmd_get_page_def cp_main_def)
qed

text \<open>C19. \<open>create-page\<close> with a template sends the template exactly as loaded with only \<open>parent\<close> set: no placeholder is substituted and an \<open>object\<close> field is kept.\<close>

theorem cmd_create_page_template_request:
  assumes "env_token w = Some tok" "tok \<noteq> []" "snd (resolve_target w target) = Inr pid"
    "arg_given template" "file_text (files w) (cwd w) (template_path w (the template)) = Some s"
    "json_parse w s = Some (JObject d)"
  shows "Api_call (Pages_create (dict_set ''parent'' (JObject [(''page_id'', pid)]) d))
           \<in> set (fst (cmd_create_page w target template title))"
  using assms
  by (simp add: cmd_create_page_def get_client_token run_bind_snd_Inr load_template_run file_text_Some
      open_read_exists json_load_def run_bind_api_call)

text \<open>C20. \<open>create-db\<close> with a template sends the template with \<open>parent\<close> set and its \<open>object\<close> field dropped.\<close>

theorem cmd_create_db_template_request:
  assumes "env_token w = Some tok" "tok \<noteq> []" "snd (resolve_target w target) = Inr pid"
    "arg_given template" "file_text (files w) (cwd w) (template_path w (the template)) = Some s"
    "json_parse w s = Some (JObject d)"
  shows "Api_call (Databases_create (dict_pop ''object'' (dict_set ''parent'' (JObject [(''page_id'', pid)]) d)))
           \<in> set (fst (cmd_create_db w target template title))"
  using assms
  by (simp add: cmd_create_db_def get_client_token run_bind_snd_Inr load_template_run file_text_Some
      open_read_exists json_load_def run_bind_api_call)

text \<open>C21. \<open>query-db\<close> with a filter and sorts sends \<open>database_id\<close>, \<open>filter\<close> and \<open>sorts\<close>, in that order, as parsed.\<close>

theorem cmd_query_db_request:
  assumes "env_token w = Some tok" "tok \<noteq> []" "snd (resolve_target w target) = Inr db"
    "arg_given filt" "json_parse w (the filt) = Some f"
    "arg_given sorts" "json_parse w (the sorts) = Some srt"
  shows "Api_call (Databases_query [(''database_id'', db), (''filter'', f), (''sorts'', srt)])
           \<in> set (fst (cmd_query_db w target filt sorts))"
  using assms
  by (simp add: cmd_query_db_def get_client_token run_bind_snd_Inr json_load_def
      run_bind_api_call dict_set_def)


lemma resolve_target_cp_raw_run: "is_raw_id parent \<Longrightarrow> resolve_target_cp w parent = ([], Inr (JString parent))"
  by (simp add: resolve_target_cp_def is_raw_id_def pure_def Let_def)

text \<open>C22. \<open>main\<close> of \<^verbatim>\<open>create_project.py\<close> prints its five plan lines before it reads the template or sends the request.\<close>

theorem cp_main_prints_plan_first:
  assumes "env_token w = Some tok" "tok \<noteq> []" "is_raw_id parent"
  shows "take 5 (fst (cp_main w name parent template icon)) =
           [Print [Txt ''Creating project page: '', Txt name],
            Print [Txt ''  Parent: '', Txt parent, Txt '' ('', Str_of (JString parent), Txt '')''],
            Print [Txt ''  Template: '', Txt template],
            Print [Txt ''  Icon: '', Txt icon],
            Print []]"
  using assms by (simp add: cp_main_def get_client_token resolve_target_cp_raw_run emit_def)

text \<open>C23. When the service answers a page creation with an object that has no \<open>id\<close>, \<open>main\<close> of \<^verbatim>\<open>create_project.py\<close> raises \<open>KeyError\<close> after the page was created.\<close>

theorem cp_main_fails_after_request:
  assumes "env_token w = Some tok" "tok \<noteq> []" "is_raw_id parent"
    "file_text (files w) (cwd w) (template_path w template) = Some s" "json_parse w s = Some (JObject d)"
    "\<forall>req. api w req = Inr (JObject r)" "''id'' \<notin> set (map fst r)"
  shows "snd (cp_main w name parent template icon) = Inl (KeyError ''id'') \<and>
         (\<exists>req. Api_call req \<in> set (fst (cp_main w name parent template icon)))"
proof -
  from assms(7) have "map_of r ''id'' = None" by (simp add: map_of_eq_None_iff)
  with assms(1-6) show ?thesis
    by (simp add: cp_main_def get_client_token resolve_target_cp_raw_run emit_def
        create_project_page_run file_text_Some open_read_exists Let_def pure_def)
qed


theorem missing_token_first_witness:
  "nc_main ((demo_world JNull JNull)\<lparr>env_token := None\<rparr>) (Get_page ''project-db'') =
     ([], Inl MissingCredentialError) \<and>
   cp_main ((demo_world JNull JNull)\<lparr>env_token := None\<rparr>) ''Apollo'' ''project-db'' ''project-page'' ''R'' =
     ([], Inl MissingCredentialError)"
  by (rule missing_token_first) simp

theorem cmd_create_page_template_request_witness:
  "Api_call (Pages_create (dict_set ''parent'' (JObject [(''page_id'', JString ''a1b2c3d4-e5f6-7890-abcd-ef1234567890'')])
       [(''object'', JString ''page'')]))
     \<in> set (fst (cmd_create_page (demo_world JNull (JObject [(''object'', JString ''page'')]))
                   ''a1b2c3d4-e5f6-7890-abcd-ef1234567890'' (Some ''project-page'') None))"
  by (rule cmd_create_page_template_request [where tok = "''secret_token''" and s = "''<template>''"])
     (simp_all add: demo_world_def resolve_target_def pure_def is_raw_id_iff arg_given_def)

theorem cmd_create_db_template_request_witness:
  "Api_call (Databases_create (dict_pop ''object'' (dict_set ''parent''
       (JObject [(''page_id'', JString ''a1b2c3d4-e5f6-7890-abcd-ef1234567890'')]) [(''object'', JString ''database'')])))
     \<in> set (fst (cmd_create_db (demo_world JNull (JObject [(''object'', JString ''database'')]))
                   ''a1b2c3d4-e5f6-7890-abcd-ef1234567890'' (Some ''project-page'') None))"
  by (rule cmd_create_db_template_request [where tok = "''secret_token''" and s = "''<template>''"])
     (simp_all add: demo_world_def resolve_target_def pure_def is_raw_id_iff arg_given_def)

theorem cmd_query_db_request_witness:
  "Api_call (Databases_query [(''database_id'', JString ''a1b2c3d4-e5f6-7890-abcd-ef1234567890''), (''filter'', JString ''F''),
       (''sorts'', JString ''S'')])
     \<in> set (fst (cmd_query_db ((demo_world JNull JNull)\<lparr>json_parse := (\<lambda>s. Some (JString s))\<rparr>)
                   ''a1b2c3d4-e5f6-7890-abcd-ef1234567890'' (Some ''F'') (Some ''S'')))"
  by (rule cmd_query_db_request [where tok = "''secret_token''"])
     (simp_all add: demo_world_def resolve_target_def pure_def is_raw_id_iff arg_given_def)

theorem cp_main_prints_plan_first_witness:
  "take 5 (fst (cp_main (demo_world JNull JNull) ''Apollo'' ''a1b2c3d4-e5f6-7890-abcd-ef1234567890'' ''project-page'' ''R'')) =
     [Print [Txt ''Creating project page: '', Txt ''Apollo''],
      Print [Txt ''  Parent: '', Txt ''a1b2c3d4-e5f6-7890-abcd-ef1234567890'', Txt '' ('', Str_of (JString ''a1b2c3d4-e5f6-7890-abcd-ef1234567890''), Txt '')''],
      Print [Txt ''  Template: '', Txt ''project-page''],
      Print [Txt ''  Icon: '', Txt ''R''],
      Print []]"
  by (rule cp_main_prints_plan_first [where tok = "''secret_token''"])
     (simp_all add: demo_world_def is_raw_id_iff)

theorem cp_main_fails_after_request_witness:
  "snd (cp_main ((demo_world JNull (JObject []))\<lparr>api := (\<lambda>_. Inr (JObject []))\<rparr>)
          ''Apollo'' ''a1b2c3d4-e5f6-7890-abcd-ef1234567890'' ''project-page'' ''R'') = Inl (KeyError ''id'') \<and>
   (\<exists>req. Api_call req \<in> set (fst (cp_main ((demo_world JNull (JObject []))\<lparr>api := (\<lambda>_. Inr (JObject []))\<rparr>)
          ''Apollo'' ''a1b2c3d4-e5f6-7890-abcd-ef1234567890'' ''project-page'' ''R'')))"
  by (rule cp_main_fails_after_request [where tok = "''secret_token''" and s = "''<template>''"
        and d = "[]" and r = "[]"])
     (simp_all add: demo_world_def is_raw_id_iff)

text \<open>C30. Without a template, \<open>create-page\<close> sends the default page body (the title,
  or \<open>Untitled\<close>, as the page title, no children) with the parent, and \<open>create-db\<close>
  the default database body (the title, or \<open>Untitled Database\<close>, and a \<open>Name\<close> title
  column) with the parent.\<close>

theorem cmd_create_default_requests:
  assumes "env_token w = Some tok" "tok \<noteq> []" "snd (resolve_target w target) = Inr pid"
    "\<not> arg_given template"
  shows "Api_call (Pages_create
           [(''properties'', JObject [(''title'', JObject [(''title'', JArray [text_title (arg_or title ''Untitled'')])])]),
            (''children'', JArray []), (''parent'', JObject [(''page_id'', pid)])])
           \<in> set (fst (cmd_create_page w target template title)) \<and>
         Api_call (Databases_create
           [(''title'', JArray [text_title (arg_or title ''Untitled Database'')]),
            (''properties'', JObject [(''Name'', JObject [(''title'', JObject [])])]),
            (''parent'', JObject [(''page_id'', pid)])])
           \<in> set (fst (cmd_create_db w target template title))"
  using assms
  by (simp add: cmd_create_page_def cmd_create_db_def get_client_token run_bind_snd_Inr
      default_page_body_def default_db_body_def dict_set_def dict_pop_def run_bind_api_call)

theorem cmd_create_default_requests_witness:
  "Api_call (Pages_create
     [(''properties'', JObject [(''title'', JObject [(''title'', JArray [text_title ''Roadmap''])])]),
      (''children'', JArray []),
      (''parent'', JObject [(''page_id'', JString ''a1b2c3d4-e5f6-7890-abcd-ef1234567890'')])])
     \<in> set (fst (cmd_create_page (demo_world JNull JNull) ''a1b2c3d4-e5f6-7890-abcd-ef1234567890'' None (Some ''Roadmap''))) \<and>
   Api_call (Databases_create
     [(''title'', JArray [text_title ''Roadmap'']),
      (''properties'', JObject [(''Name'', JObject [(''title'', JObject [])])]),
      (''parent'', JObject [(''page_id'', JString ''a1b2c3d4-e5f6-7890-abcd-ef1234567890'')])])
     \<in> set (fst (cmd_create_db (demo_world JNull JNull) ''a1b2c3d4-e5f6-7890-abcd-ef1234567890'' None (Some ''Roadmap'')))"
  using cmd_create_default_requests [where w = "demo_world JNull JNull" and tok = "''secret_token''"
      and target = "''a1b2c3d4-e5f6-7890-abcd-ef1234567890''" and template = None and title = "Some ''Roadmap''"
      and pid = "JString ''a1b2c3d4-e5f6-7890-abcd-ef1234567890''"]
  by (simp add: resolve_target_def pure_def is_raw_id_iff arg_given_def arg_or_def)

text \<open>C31. \<open>update-page\<close>, \<open>append-blocks\<close> and \<open>get-page\<close> send the resolved
  identifier with the parsed argument exactly as parsed: no field is added, dropped or
  checked.\<close>

theorem cmd_direct_requests:
  assumes "env_token w = Some tok" "tok \<noteq> []" "snd (resolve_target w target) = Inr pid"
    "json_parse w properties = Some props" "json_parse w blocks = Some children"
  shows "Api_call (Pages_update pid props) \<in> set (fst (cmd_update_page w target properties)) \<and>
         Api_call (Blocks_children_append pid children) \<in> set (fst (cmd_append_blocks w target blocks)) \<and>
         Api_call (Pages_retrieve pid) \<in> set (fst (cmd_get_page w target))"
  using assms
  by (simp add: cmd_update_page_def cmd_append_blocks_def cmd_get_page_def get_client_token
      run_bind_snd_Inr json_load_def run_bind_api_call)

theorem cmd_direct_requests_witness:
  "Api_call (Pages_update (JString ''a1b2c3d4-e5f6-7890-abcd-ef1234567890'') (JString ''P''))
     \<in> set (fst (cmd_update_page ((demo_world JNull JNull)\<lparr>json_parse := (\<lambda>s. Some (JString s))\<rparr>)
                   ''a1b2c3d4-e5f6-7890-abcd-ef1234567890'' ''P'')) \<and>
   Api_call (Blocks_children_append (JString ''a1b2c3d4-e5f6-7890-abcd-ef1234567890'') (JString ''B''))
     \<in> set (fst (cmd_append_blocks ((demo_world JNull JNull)\<lparr>json_parse := (\<lambda>s. Some (JString s))\<rparr>)
                   ''a1b2c3d4-e5f6-7890-abcd-ef1234567890'' ''B'')) \<and>
   Api_call (Pages_retrieve (JString ''a1b2c3d4-e5f6-7890-abcd-ef1234567890''))
     \<in> set (fst (cmd_get_page ((demo_world JNull JNull)\<lparr>json_parse := (\<lambda>s. Some (JString s))\<rparr>)
                   ''a1b2c3d4-e5f6-7890-abcd-ef1234567890''))"
  by (rule cmd_direct_requests [where tok = "''secret_token''"])
     (simp_all add: demo_world_def resolve_target_def pure_def is_raw_id_iff)

text \<open>C32. Progress of \<^verbatim>\<open>create_project.py\<close>: with a token, a raw parent, a template
  that parses to an object and a service that creates the page, \<open>main\<close> sends the page
  creation, returns the created page and ends with the three lines that report its
  \<open>id\<close> and \<open>url\<close> (an empty string when the answer has no \<open>url\<close>).\<close>

theorem cp_main_creates_page:
  assumes "env_token w = Some tok" "tok \<noteq> []" "is_raw_id parent"
    "file_text (files w) (cwd w) (template_path w template) = Some s" "json_parse w s = Some (JObject d)"
    "\<forall>req. api w req = Inr (JObject r)" "map_of r ''id'' = Some i"
  shows "snd (cp_main w name parent template icon) = Inr (JObject r) \<and>
         (\<exists>kw. Api_call (Pages_create kw) \<in> set (fst (cp_main w name parent template icon))) \<and>
         drop 7 (fst (cp_main w name parent template icon)) =
           [Print [Txt ''Project page created!''], Print [Txt ''  ID:  '', Str_of i],
            Print [Txt ''  URL: '', Str_of (case map_of r ''url'' of None \<Rightarrow> JString [] | Some u \<Rightarrow> u)]]"
  using assms
  by (simp add: cp_main_def get_client_token resolve_target_cp_raw_run emit_def
      create_project_page_run file_text_Some open_read_exists Let_def pure_def split: option.splits)

theorem cp_main_creates_page_witness:
  "snd (cp_main (demo_world JNull (JObject [])) ''Apollo'' ''a1b2c3d4-e5f6-7890-abcd-ef1234567890'' ''project-page'' ''R'') =
     Inr (JObject [(''id'', JString ''page-1''), (''url'', JString ''https://example.invalid/page-1'')]) \<and>
   (\<exists>kw. Api_call (Pages_create kw) \<in> set (fst (cp_main (demo_world JNull (JObject [])) ''Apollo''
          ''a1b2c3d4-e5f6-7890-abcd-ef1234567890'' ''project-page'' ''R''))) \<and>
   drop 7 (fst (cp_main (demo_world JNull (JObject [])) ''Apollo'' ''a1b2c3d4-e5f6-7890-abcd-ef1234567890'' ''project-page'' ''R'')) =
     [Print [Txt ''Project page created!''], Print [Txt ''  ID:  '', Str_of (JString ''page-1'')],
      Print [Txt ''  URL: '', Str_of (case map_of [(''id'', JString ''page-1''), (''url'', JString ''https://example.invalid/page-1'')] ''url'' of
                                      None \<Rightarrow> JString [] | Some u \<Rightarrow> u)]]"
  by (rule cp_main_creates_page [where tok = "''secret_token''" and s = "''<template>''" and d = "[]"])
     (simp_all add: demo_world_def is_raw_id_iff)

end
