(* ===== verification/Effects.thy ===== *)
theory Effects
  imports Commands
begin

text \<open>
  The effects of an invocation as the spec orders and bounds them. The spec's order of the
  effects of one invocation is: the configuration file, then the template, then the
  request, then standard output (\<open>event_rank\<close>); \<open>in_spec_order\<close> holds of a trace
  whose ranks strictly increase, at most one event of each rank. \<open>phase lo hi m\<close>: the
  trace of \<open>m\<close> is in order and its ranks lie in \<open>[lo, hi)\<close>; the rules of
  \<open>phase_intros\<close> split it over the statements of a handler. \<open>no_request m\<close>:
  \<open>m\<close> sends nothing; \<open>fails_before_request m\<close>: if \<open>m\<close> fails with anything but
  the service's own error, it sent nothing (rules \<open>ff_intros\<close>).
\<close>

section \<open>Definitions\<close>

text \<open>The spec's order of the effects of one invocation: the configuration file, then the
  template, then the request, then standard output. \<open>in_spec_order\<close> holds of a trace
  whose ranks strictly increase: at most one event of each rank, in that order.
  \<open>phase lo hi m\<close>: the trace of \<open>m\<close> is in order and its ranks lie in \<open>[lo, hi)\<close>.\<close>

fun event_rank :: "'n event \<Rightarrow> nat" where
  "event_rank (Read_config _) = 0"
| "event_rank (Read_template _) = 1"
| "event_rank (Api_call _) = 2"
| "event_rank (Print _) = 3"
| "event_rank (Print_json _) = 3"

definition in_spec_order :: "'n event list \<Rightarrow> bool" where
  "in_spec_order tr \<longleftrightarrow> sorted_wrt (<) (map event_rank tr)"

definition phase :: "nat \<Rightarrow> nat \<Rightarrow> ('n, 'a) run \<Rightarrow> bool" where
  "phase lo hi m \<longleftrightarrow>
     in_spec_order (fst m) \<and> (\<forall>e \<in> set (fst m). lo \<le> event_rank e \<and> event_rank e < hi)"

text \<open>\<open>no_request m\<close>: \<open>m\<close> sends nothing. \<open>fails_before_request m\<close>: if \<open>m\<close>
  fails with anything but the service's own error, it sent nothing.\<close>

definition no_request :: "('n, 'a) run \<Rightarrow> bool" where
  "no_request m \<longleftrightarrow> (\<forall>req. Api_call req \<notin> set (fst m))"

definition fails_before_request :: "('n, 'a) run \<Rightarrow> bool" where
  "fails_before_request m \<longleftrightarrow>
     (\<forall>e. snd m = Inl e \<longrightarrow> (\<forall>d. e \<noteq> APIResponseError d) \<longrightarrow> no_request m)"

text \<open>The requests of a trace.\<close>

fun is_request :: "'n event \<Rightarrow> bool" where
  "is_request (Api_call _) = True"
| "is_request _ = False"

section \<open>Lemmas\<close>

named_theorems phase_intros "rules that split the order of a run over its statements"
named_theorems ff_intros "rules that locate the failures of a run before its request"

lemma phase_seq:
  assumes m: "phase a b m" and f: "\<And>x. phase b c (f x)" and "a \<le> b" "b \<le> c"
  shows "phase a c (run_bind m f)"
proof (cases "snd m")
  case (Inl e)
  then have "fst (run_bind m f) = fst m" by (cases m) simp
  with m \<open>b \<le> c\<close> show ?thesis by (fastforce simp: phase_def)
next
  case (Inr x)
  then have eq: "fst (run_bind m f) = fst m @ fst (f x)" by (cases m) simp
  from m f [of x] \<open>a \<le> b\<close> have
    "sorted_wrt (<) (map event_rank (fst m) @ map event_rank (fst (f x)))"
    by (fastforce simp: phase_def in_spec_order_def sorted_wrt_append)
  with m f [of x] \<open>a \<le> b\<close> \<open>b \<le> c\<close> show ?thesis
    unfolding phase_def in_spec_order_def eq by force
qed

lemma phase_mono: "phase a b m \<Longrightarrow> a' \<le> a \<Longrightarrow> b \<le> b' \<Longrightarrow> phase a' b' m"
  by (fastforce simp: phase_def)

lemma phase_Nil [simp]: "phase a b ([], r)"
  by (simp add: phase_def in_spec_order_def)

lemma phase_if [phase_intros]: "phase a b m1 \<Longrightarrow> phase a b m2 \<Longrightarrow> phase a b (if c then m1 else m2)"
  by simp

lemma seq_pure [phase_intros]: "(\<And>x. phase a b (f x)) \<Longrightarrow> phase a b (run_bind (pure r) f)"
  by (cases r) (simp_all add: pure_def)

lemma seq_get_client [phase_intros]: "(\<And>x. phase a b (f x)) \<Longrightarrow> phase a b (run_bind (get_client w) f)"
  by (auto simp: get_client_def pure_def split: option.splits)

lemma phase_resolve_target: "phase 0 1 (resolve_target w name)"
  by (auto simp: phase_def in_spec_order_def resolve_target_def load_config_def open_json_def pure_def
      run_bind_def split: option.splits sum.splits)

lemma phase_load_template: "phase 1 2 (load_template w name)"
  by (auto simp: phase_def in_spec_order_def load_template_run split: sum.splits)

lemma phase_api_call: "phase 2 3 (api_call w req)"
  by (simp add: phase_def in_spec_order_def api_call_def)

lemma seq_resolve_target [phase_intros]:
  "(\<And>x. phase 1 b (f x)) \<Longrightarrow> a = 0 \<Longrightarrow> 1 \<le> b \<Longrightarrow> phase a b (run_bind (resolve_target w name) f)"
  by (auto intro: phase_seq [OF phase_resolve_target])

lemma seq_load_template [phase_intros]:
  "(\<And>x. phase 2 b (f x)) \<Longrightarrow> a \<le> 1 \<Longrightarrow> 2 \<le> b \<Longrightarrow> phase a b (run_bind (load_template w name) f)"
  by (rule phase_mono [OF phase_seq [OF phase_load_template, where c = b and f = f]]) auto

lemma seq_api_call [phase_intros]:
  "(\<And>x. phase 3 b (f x)) \<Longrightarrow> a \<le> 2 \<Longrightarrow> 3 \<le> b \<Longrightarrow> phase a b (run_bind (api_call w req) f)"
  by (rule phase_mono [OF phase_seq [OF phase_api_call, where c = b and f = f]]) auto

lemma phase_print_json [phase_intros]: "a \<le> 3 \<Longrightarrow> 4 \<le> b \<Longrightarrow> phase a b (emit (Print_json v))"
  by (simp add: phase_def in_spec_order_def emit_def)

lemma nc_main_phase: "phase 0 4 (nc_main w c)"
  by (cases c) (simp_all add: cmd_create_page_def cmd_create_db_def cmd_update_page_def
      cmd_query_db_def cmd_append_blocks_def cmd_get_page_def Let_def, (intro phase_intros; simp)+)

text \<open>C17. Every subcommand of \<^verbatim>\<open>notion_client.py\<close> keeps the spec's order of effects: at most one configuration read, one template read, one request and one output, in that order.\<close>

theorem nc_main_in_spec_order: "in_spec_order (fst (nc_main w c))"
  using nc_main_phase [of w c] by (simp add: phase_def)


lemma ff_local [ff_intros]:
  assumes "no_request m" "\<And>x. fails_before_request (f x)"
  shows "fails_before_request (run_bind m f)"
proof (cases "snd m")
  case (Inl e)
  with assms(1) show ?thesis
    by (cases m) (simp add: fails_before_request_def no_request_def)
next
  case (Inr x)
  with assms show ?thesis
    by (cases m) (auto simp: fails_before_request_def no_request_def)
qed

lemma ff_api_call [ff_intros]:
  assumes "\<And>x. snd (f x) = Inr ()"
  shows "fails_before_request (run_bind (api_call w req) f)"
  using assms by (auto simp: fails_before_request_def api_call_def split: sum.splits)

lemma ff_if [ff_intros]:
  "fails_before_request m1 \<Longrightarrow> fails_before_request m2 \<Longrightarrow> fails_before_request (if c then m1 else m2)"
  by simp

lemma no_request_pure [ff_intros]: "no_request (pure r)"
  by (simp add: no_request_def pure_def)

lemma no_request_get_client [ff_intros]: "no_request (get_client w)"
  by (simp add: no_request_def get_client_def pure_def split: option.splits)

lemma no_request_resolve_target [ff_intros]: "no_request (resolve_target w name)"
  by (auto simp: no_request_def resolve_target_def load_config_def open_json_def pure_def run_bind_def
      split: option.splits sum.splits)

lemma no_request_load_template [ff_intros]: "no_request (load_template w name)"
  by (simp add: no_request_def load_template_run split: sum.splits)

lemma no_request_if [ff_intros]: "no_request m1 \<Longrightarrow> no_request m2 \<Longrightarrow> no_request (if c then m1 else m2)"
  by simp

text \<open>C18. Fail fast: when a subcommand of \<^verbatim>\<open>notion_client.py\<close> ends with an error other than the service's \<open>APIResponseError\<close>, it sent no request.\<close>

theorem nc_main_fails_before_request:
  assumes "snd (nc_main w c) = Inl e" "\<forall>d. e \<noteq> APIResponseError d"
  shows "Api_call req \<notin> set (fst (nc_main w c))"
proof -
  have "fails_before_request (nc_main w c)"
    by (cases c) (simp_all add: cmd_create_page_def cmd_create_db_def cmd_update_page_def
        cmd_query_db_def cmd_append_blocks_def cmd_get_page_def Let_def, (intro ff_intros; simp)+)
  with assms show ?thesis by (auto simp: fails_before_request_def no_request_def)
qed



theorem nc_main_fails_before_request_witness:
  "Api_call (Pages_retrieve JNull) \<notin> set (fst (nc_main (demo_world JNull JNull) (Get_page ''project-db'')))"
  by (rule nc_main_fails_before_request [where e = AttributeError])
     (simp_all add: cmd_get_page_def get_client_def resolve_target_def load_config_def
       json_load_def lookup_target_def is_raw_id_iff pure_def run_bind_open_json demo_world_def)

section \<open>At most one request\<close>

named_theorems req_intros "rules that bound the requests of a run by one"

lemma fst_run_bind:
  "fst (run_bind m f) = fst m @ (case snd m of Inl _ \<Rightarrow> [] | Inr x \<Rightarrow> fst (f x))"
  by (simp add: run_bind_def split: prod.splits sum.splits)

lemma sorted_rank_once:
  "sorted_wrt (<) (map event_rank tr) \<Longrightarrow> length (filter (\<lambda>e. event_rank e = k) tr) \<le> 1"
proof (induction tr)
  case (Cons e tr)
  then have "\<forall>e' \<in> set tr. event_rank e < event_rank e'" "length (filter (\<lambda>e. event_rank e = k) tr) \<le> 1"
    by auto
  then show ?case
    by (cases "event_rank e = k") (auto simp: filter_empty_conv)
qed simp

lemma is_request_rank: "is_request = (\<lambda>e. event_rank e = 2)"
proof
  fix e :: "'n event"
  show "is_request e = (event_rank e = 2)" by (cases e) simp_all
qed

lemma no_request_filter: "no_request m \<longleftrightarrow> filter is_request (fst m) = []"
proof -
  have "(\<forall>req. Api_call req \<notin> set (fst m)) \<longleftrightarrow> (\<forall>e \<in> set (fst m). \<not> is_request e)"
    by (metis is_request.elims(2) is_request.simps(1))
  then show ?thesis by (simp add: no_request_def filter_empty_conv)
qed

lemma no_request_seq [req_intros]:
  "no_request m \<Longrightarrow> (\<And>x. no_request (f x)) \<Longrightarrow> no_request (run_bind m f)"
  by (simp add: no_request_filter fst_run_bind split: sum.splits)

lemma no_request_emit [req_intros]: "no_request (emit (Print p))"
  by (simp add: no_request_def emit_def)

lemma no_request_resolve_target_cp: "no_request (resolve_target_cp w name)"
  by (auto simp: no_request_def resolve_target_cp_def open_json_def pure_def run_bind_def Let_def
      split: sum.splits)

lemma one_request_after_none:
  "no_request m \<Longrightarrow> (\<And>x. length (filter is_request (fst (f x))) \<le> 1) \<Longrightarrow>
   length (filter is_request (fst (run_bind m f))) \<le> 1"
  by (simp add: no_request_filter fst_run_bind split: sum.splits)

lemma one_request_before_none:
  "length (filter is_request (fst m)) \<le> 1 \<Longrightarrow> (\<And>x. no_request (f x)) \<Longrightarrow>
   length (filter is_request (fst (run_bind m f))) \<le> 1"
  by (simp add: no_request_filter fst_run_bind split: sum.splits)

lemma one_request_create_project_page:
  "length (filter is_request (fst (create_project_page w pid pname name icon))) \<le> 1"
  by (simp add: create_project_page_run Let_def split: option.splits json.splits sum.splits)

lemmas one_request_cp_main =
  one_request_after_none [OF no_request_get_client] one_request_after_none [OF no_request_resolve_target_cp]
  one_request_after_none [OF no_request_emit] one_request_before_none [OF one_request_create_project_page]
  no_request_seq no_request_pure no_request_emit

text \<open>C29. Bounds: an invocation of either script sends at most one request to the
  remote service, whatever the world, the arguments and the failures on the way.\<close>

theorem at_most_one_request:
  "length (filter is_request (fst (nc_main w c))) \<le> 1 \<and>
   length (filter is_request (fst (cp_main w name parent template icon))) \<le> 1"
proof
  have "sorted_wrt (<) (map event_rank (fst (nc_main w c)))"
    using nc_main_phase [of w c] by (simp add: phase_def in_spec_order_def)
  then show "length (filter is_request (fst (nc_main w c))) \<le> 1"
    unfolding is_request_rank by (rule sorted_rank_once)
  show "length (filter is_request (fst (cp_main w name parent template icon))) \<le> 1"
    unfolding cp_main_def get_client_cp_nc by (intro one_request_cp_main)
qed

end
