(* ===== verification/Startup.thy ===== *)
theory Startup
  imports Prelude
begin

text \<open>
  Module start-up: what Python does with the top-level statements of a script before any
  handler runs. A module body is a list of statements that matter for imports: \<open>import m\<close>,
  \<open>from m import x\<close>, a statement that binds a name (\<open>def\<close>, an assignment), and one
  that binds nothing (a call). \<open>sys.modules\<close> maps each module loaded so far to the names
  its namespace holds; a module is entered into it before its body runs, so a module that
  is imported again while its body is still running is seen partially initialised.
  Modules are found by searching the directories of \<open>sys.path\<close> in order; running
  \<^verbatim>\<open>python scripts/x.py\<close> puts \<^verbatim>\<open>scripts\<close> first. The interpreter runs on fuel:
  every nested module body spends one unit, and more fuel never changes a result.
\<close>

section \<open>Definitions\<close>

datatype stmt =
    Import string
  | Import_from string string
  | Bind string
  | Run

datatype import_error = ModuleNotFoundError string | ImportError string string

type_synonym modules = "string \<rightharpoonup> string set"

text \<open>Where the module files are: \<open>fs d m\<close> is the body of \<open>m.py\<close> in directory \<open>d\<close>.\<close>

type_synonym module_files = "string \<Rightarrow> string \<Rightarrow> stmt list option"

fun find_module :: "string list \<Rightarrow> module_files \<Rightarrow> string \<Rightarrow> stmt list option" where
  "find_module [] fs m = None"
| "find_module (d # ds) fs m = (case fs d m of Some b \<Rightarrow> Some b | None \<Rightarrow> find_module ds fs m)"

definition bind_name :: "string \<Rightarrow> string \<Rightarrow> modules \<Rightarrow> modules" where
  "bind_name cur x mods = mods(cur \<mapsto> insert x (case mods cur of None \<Rightarrow> {} | Some ns \<Rightarrow> ns))"

text \<open>Running the statements of module \<open>cur\<close>. An import of a module not yet in
  \<open>sys.modules\<close> finds its file, enters it with an empty namespace and runs its body
  (one unit of fuel); \<open>from m import x\<close> then needs \<open>x\<close> in the namespace of \<open>m\<close>.\<close>

fun exec_stmts ::
  "nat \<Rightarrow> string list \<Rightarrow> module_files \<Rightarrow> string \<Rightarrow> stmt list \<Rightarrow> modules \<Rightarrow>
   (import_error + modules) option" where
  "exec_stmts 0 path fs cur ss mods = None"
| "exec_stmts (Suc n) path fs cur [] mods = Some (Inr mods)"
| "exec_stmts (Suc n) path fs cur (Run # ss) mods = exec_stmts (Suc n) path fs cur ss mods"
| "exec_stmts (Suc n) path fs cur (Bind x # ss) mods =
     exec_stmts (Suc n) path fs cur ss (bind_name cur x mods)"
| "exec_stmts (Suc n) path fs cur (Import m # ss) mods =
     (case mods m of
        Some _ \<Rightarrow> exec_stmts (Suc n) path fs cur ss (bind_name cur m mods)
      | None \<Rightarrow>
          (case find_module path fs m of
             None \<Rightarrow> Some (Inl (ModuleNotFoundError m))
           | Some body \<Rightarrow>
               (case exec_stmts n path fs m body (mods(m \<mapsto> {})) of
                  None \<Rightarrow> None
                | Some (Inl e) \<Rightarrow> Some (Inl e)
                | Some (Inr mods') \<Rightarrow> exec_stmts (Suc n) path fs cur ss (bind_name cur m mods'))))"
| "exec_stmts (Suc n) path fs cur (Import_from m x # ss) mods =
     (case mods m of
        Some ns \<Rightarrow>
          if x \<in> ns then exec_stmts (Suc n) path fs cur ss (bind_name cur x mods)
          else Some (Inl (ImportError m x))
      | None \<Rightarrow>
          (case find_module path fs m of
             None \<Rightarrow> Some (Inl (ModuleNotFoundError m))
           | Some body \<Rightarrow>
               (case exec_stmts n path fs m body (mods(m \<mapsto> {})) of
                  None \<Rightarrow> None
                | Some (Inl e) \<Rightarrow> Some (Inl e)
                | Some (Inr mods') \<Rightarrow>
                    if x \<in> (case mods' m of None \<Rightarrow> {} | Some ns \<Rightarrow> ns)
                    then exec_stmts (Suc n) path fs cur ss (bind_name cur x mods')
                    else Some (Inl (ImportError m x)))))"

text \<open>A script runs as module \<open>__main__\<close>.\<close>

definition run_script :: "nat \<Rightarrow> string list \<Rightarrow> module_files \<Rightarrow> stmt list \<Rightarrow> (import_error + modules) option" where
  "run_script fuel path fs body = exec_stmts fuel path fs ''__main__'' body [''__main__'' \<mapsto> {}]"


text \<open>The top-level statements of \<^verbatim>\<open>scripts/notion_client.py\<close> (lines 16--198):
  four imports, three \<open>from\<close>-imports, \<open>load_dotenv()\<close>, two paths, the functions, and
  the \<open>__main__\<close> guard.\<close>

definition nc_module_body :: "stmt list" where
  "nc_module_body =
     [Import ''argparse'', Import ''json'', Import ''os'', Import ''sys'',
      Import_from ''pathlib'' ''Path'', Import_from ''dotenv'' ''load_dotenv'',
      Import_from ''notion_client'' ''Client'', Run,
      Bind ''CONFIG_PATH'', Bind ''TEMPLATES_DIR'',
      Bind ''get_client'', Bind ''load_config'', Bind ''resolve_target'', Bind ''load_template'',
      Bind ''cmd_create_page'', Bind ''cmd_create_db'', Bind ''cmd_update_page'',
      Bind ''cmd_query_db'', Bind ''cmd_append_blocks'', Bind ''cmd_get_page'', Bind ''main'', Run]"

text \<open>The top-level statements of \<^verbatim>\<open>scripts/create_project.py\<close> (lines 13--130).\<close>

definition cp_module_body :: "stmt list" where
  "cp_module_body =
     [Import ''argparse'', Import ''copy'', Import ''json'', Import ''os'', Import ''sys'',
      Import_from ''datetime'' ''date'', Import_from ''pathlib'' ''Path'',
      Import_from ''dotenv'' ''load_dotenv'', Import_from ''notion_client'' ''Client'', Run,
      Bind ''ROOT'', Bind ''CONFIG_PATH'', Bind ''TEMPLATES_DIR'',
      Bind ''get_client'', Bind ''resolve_target'', Bind ''load_template'',
      Bind ''replace_placeholders'', Bind ''create_project_page'', Bind ''main'', Run]"

text \<open>An installation: the repository's \<^verbatim>\<open>scripts\<close> directory, the standard library, and
  \<^verbatim>\<open>site-packages\<close> with \<open>python-dotenv\<close> and the \<open>notion-client\<close> package, whose
  \<open>notion_client\<close> module defines \<open>Client\<close>. \<open>script_path\<close> is \<open>sys.path\<close> of
  \<^verbatim>\<open>python scripts/x.py\<close>.\<close>

definition installed :: module_files where
  "installed d m =
     (if d = ''scripts'' then
        (if m = ''notion_client'' then Some nc_module_body
         else if m = ''create_project'' then Some cp_module_body else None)
      else if d = ''stdlib'' then
        (if m \<in> {''argparse'', ''copy'', ''json'', ''os'', ''sys''} then Some []
         else if m = ''pathlib'' then Some [Bind ''Path'']
         else if m = ''datetime'' then Some [Bind ''date''] else None)
      else if d = ''site-packages'' then
        (if m = ''dotenv'' then Some [Bind ''load_dotenv'']
         else if m = ''notion_client'' then Some [Bind ''Client''] else None)
      else None)"

definition script_path :: "string list" where
  "script_path = [''scripts'', ''stdlib'', ''site-packages'']"

text \<open>An installation that provides the modules the scripts import before
  \<open>notion_client\<close>: each found on the path and a leaf (its body only binds names), with
  \<open>Path\<close>, \<open>date\<close> and \<open>load_dotenv\<close> where the scripts import them from.\<close>

fun is_bind :: "stmt \<Rightarrow> bool" where
  "is_bind (Bind x) = True"
| "is_bind _ = False"

definition provides :: "string list \<Rightarrow> module_files \<Rightarrow> string \<Rightarrow> string list \<Rightarrow> bool" where
  "provides path fs m xs =
     (case find_module path fs m of
        None \<Rightarrow> False
      | Some b \<Rightarrow> list_all is_bind b \<and> list_all (\<lambda>x. Bind x \<in> set b) xs)"

definition std_installed :: "string list \<Rightarrow> module_files \<Rightarrow> bool" where
  "std_installed path fs \<longleftrightarrow>
     list_all (\<lambda>m. provides path fs m []) [''argparse'', ''copy'', ''json'', ''os'', ''sys'']
     \<and> provides path fs ''pathlib'' [''Path''] \<and> provides path fs ''datetime'' [''date'']
     \<and> provides path fs ''dotenv'' [''load_dotenv'']"

section \<open>Lemmas\<close>

lemma exec_leaf:
  "list_all is_bind b \<Longrightarrow> mods cur = Some ns \<Longrightarrow>
   exec_stmts (Suc n) path fs cur b mods = Some (Inr (mods(cur \<mapsto> ns \<union> {x. Bind x \<in> set b})))"
proof (induction b arbitrary: ns mods)
  case Nil
  then show ?case by (simp add: map_upd_triv)
next
  case (Cons s b)
  then obtain x where s: "s = Bind x" by (cases s) auto
  have "bind_name cur x mods = mods(cur \<mapsto> insert x ns)"
    using Cons.prems by (simp add: bind_name_def)
  with Cons s show ?case by auto
qed

lemma provides_leaf:
  "provides path fs m xs \<Longrightarrow>
   \<exists>b. find_module path fs m = Some b \<and> list_all is_bind b \<and> set xs \<subseteq> {x. Bind x \<in> set b}"
  by (auto simp: provides_def list_all_iff split: option.splits)


lemma std_installedE:
  assumes "std_installed path fs"
  obtains b1 b2 b3 b4 b5 b6 b7 b8 where
    "find_module path fs ''argparse'' = Some b1" "find_module path fs ''copy'' = Some b2"
    "find_module path fs ''json'' = Some b3" "find_module path fs ''os'' = Some b4"
    "find_module path fs ''sys'' = Some b5" "find_module path fs ''pathlib'' = Some b6"
    "find_module path fs ''datetime'' = Some b7" "find_module path fs ''dotenv'' = Some b8"
    "list_all is_bind b1" "list_all is_bind b2" "list_all is_bind b3" "list_all is_bind b4"
    "list_all is_bind b5" "list_all is_bind b6" "list_all is_bind b7" "list_all is_bind b8"
    "Bind ''Path'' \<in> set b6" "Bind ''date'' \<in> set b7" "Bind ''load_dotenv'' \<in> set b8"
  using assms unfolding std_installed_def by (auto dest!: provides_leaf)

lemma exec_stmts_fuel_mono:
  "exec_stmts n path fs cur ss mods = Some r \<Longrightarrow> exec_stmts (Suc n) path fs cur ss mods = Some r"
proof (induction n path fs cur ss mods arbitrary: r rule: exec_stmts.induct)
  case (5 n path fs cur m ss mods)
  then show ?case
    by (auto simp: fun_upd_def split: option.splits sum.splits)
next
  case (6 n path fs cur m x ss mods)
  then show ?case
    by (auto simp: fun_upd_def split: option.splits sum.splits if_splits)
qed simp_all

lemma exec_stmts_fuel_le:
  "n \<le> n' \<Longrightarrow> exec_stmts n path fs cur ss mods = Some r \<Longrightarrow> exec_stmts n' path fs cur ss mods = Some r"
proof (induction n' arbitrary: n)
  case (Suc n')
  then show ?case by (auto simp: le_Suc_eq intro: exec_stmts_fuel_mono)
qed simp

lemma run_script_fuel_le:
  "run_script n path fs body = Some r \<Longrightarrow> n \<le> n' \<Longrightarrow> run_script n' path fs body = Some r"
  by (simp add: run_script_def exec_stmts_fuel_le)

section \<open>Start-up of the scripts\<close>

end
