(* ===== verification/Script.thy ===== *)
theory Script
  imports Effects Startup
begin

text \<open>
  The run of a script as a whole: Python executes the module body of the script as
  \<open>__main__\<close> (its imports and definitions, \<open>Startup\<close>), and the last statement,
  \<open>if __name__ == "__main__": main()\<close>, then calls \<open>main\<close> with the arguments
  \<open>argparse\<close> parsed (\<open>Commands\<close>). A failed import ends the run before \<open>main\<close>: no
  file is read, no request sent, nothing printed.
\<close>

section \<open>Definitions\<close>

definition nc_script ::
  "nat \<Rightarrow> string list \<Rightarrow> module_files \<Rightarrow> 'n world \<Rightarrow> nc_command \<Rightarrow>
   (import_error + ('n, unit) run) option" where
  "nc_script fuel path fs w cmd =
     (case run_script fuel path fs nc_module_body of
        None \<Rightarrow> None
      | Some (Inl e) \<Rightarrow> Some (Inl e)
      | Some (Inr mods) \<Rightarrow> Some (Inr (nc_main w cmd)))"

definition cp_script ::
  "nat \<Rightarrow> string list \<Rightarrow> module_files \<Rightarrow> 'n world \<Rightarrow> string \<Rightarrow> string \<Rightarrow> string \<Rightarrow> string \<Rightarrow>
   (import_error + ('n, 'n json) run) option" where
  "cp_script fuel path fs w name parent template icon =
     (case run_script fuel path fs cp_module_body of
        None \<Rightarrow> None
      | Some (Inl e) \<Rightarrow> Some (Inl e)
      | Some (Inr mods) \<Rightarrow> Some (Inr (cp_main w name parent template icon)))"

section \<open>Running a script\<close>

text \<open>C24. Run as documented, neither script reaches \<open>main\<close>:
  \<^verbatim>\<open>python scripts/notion_client.py\<close> runs \<open>from notion_client import Client\<close>,
  which loads the script itself as module \<open>notion_client\<close>, whose own import of
  \<open>Client\<close> finds it partially initialised without \<open>Client\<close>, although the
  \<open>notion-client\<close> package is installed; \<^verbatim>\<open>python scripts/create_project.py\<close>
  loads \<^verbatim>\<open>scripts/notion_client.py\<close> the same way. Whatever the world and the
  arguments, the run ends in \<open>ImportError\<close> with no file read, no request sent and
  nothing printed. This holds in every installation whose first directory is
  \<^verbatim>\<open>scripts\<close> with the script in it and which finds the modules imported before
  \<open>notion_client\<close> (\<open>std_installed\<close>), whatever else it holds, and for every fuel
  from 3 on.\<close>

theorem script_import_error:
  assumes nc: "fs ''scripts'' ''notion_client'' = Some nc_module_body"
    and std: "std_installed (''scripts'' # ds) fs" and fuel: "3 \<le> fuel"
  shows "nc_script fuel (''scripts'' # ds) fs w cmd = Some (Inl (ImportError ''notion_client'' ''Client'')) \<and>
         cp_script fuel (''scripts'' # ds) fs w name parent template icon =
           Some (Inl (ImportError ''notion_client'' ''Client''))"
proof -
  have f: "find_module (''scripts'' # ds) fs ''notion_client'' = Some nc_module_body" using nc by simp
  have "run_script 3 (''scripts'' # ds) fs nc_module_body = Some (Inl (ImportError ''notion_client'' ''Client'')) \<and>
        run_script 3 (''scripts'' # ds) fs cp_module_body = Some (Inl (ImportError ''notion_client'' ''Client''))"
    using std unfolding run_script_def numeral_3_eq_3
    by (elim std_installedE)
       (simp add: nc_module_body_def cp_module_body_def exec_leaf f bind_name_def del: find_module.simps)
  then have "run_script fuel (''scripts'' # ds) fs nc_module_body = Some (Inl (ImportError ''notion_client'' ''Client'')) \<and>
        run_script fuel (''scripts'' # ds) fs cp_module_body = Some (Inl (ImportError ''notion_client'' ''Client''))"
    using fuel run_script_fuel_le by blast
  then show ?thesis by (simp add: nc_script_def cp_script_def)
qed

theorem script_import_error_witness:
  "nc_script 3 script_path installed (demo_world JNull JNull) (Get_page ''project-db'') =
     Some (Inl (ImportError ''notion_client'' ''Client'')) \<and>
   cp_script 3 script_path installed (demo_world JNull JNull) ''Apollo'' ''project-db'' ''project-page'' ''R'' =
     Some (Inl (ImportError ''notion_client'' ''Client''))"
  unfolding script_path_def
  by (rule script_import_error) (simp_all add: installed_def std_installed_def provides_def)

text \<open>C25. The failure is the shadowing alone: on any search path where the module found
  for \<open>notion_client\<close> is the installed package (a module that binds \<open>Client\<close>) and
  the other imported modules are found, the module bodies run to their end and each
  script's run is exactly its \<open>main\<close> on the parsed arguments; for instance with the
  installed packages searched before \<^verbatim>\<open>scripts\<close>.\<close>

theorem script_runs_main:
  assumes std: "std_installed path fs" and pkg: "provides path fs ''notion_client'' [''Client'']"
    and fuel: "3 \<le> fuel"
  shows "nc_script fuel path fs w cmd = Some (Inr (nc_main w cmd)) \<and>
         cp_script fuel path fs w name parent template icon = Some (Inr (cp_main w name parent template icon))"
proof -
  from pkg obtain b9 where
    c: "find_module path fs ''notion_client'' = Some b9" "list_all is_bind b9" "Bind ''Client'' \<in> set b9"
    by (auto dest!: provides_leaf)
  have "(\<exists>mods. run_script 3 path fs nc_module_body = Some (Inr mods)) \<and>
        (\<exists>mods. run_script 3 path fs cp_module_body = Some (Inr mods))"
    using std unfolding run_script_def numeral_3_eq_3
    by (elim std_installedE)
       (simp add: nc_module_body_def cp_module_body_def exec_leaf c bind_name_def del: find_module.simps)
  then obtain m1 m2 where "run_script 3 path fs nc_module_body = Some (Inr m1)"
      "run_script 3 path fs cp_module_body = Some (Inr m2)" by blast
  then have "run_script fuel path fs nc_module_body = Some (Inr m1)"
      "run_script fuel path fs cp_module_body = Some (Inr m2)"
    using fuel by (blast intro: run_script_fuel_le)+
  then show ?thesis by (simp add: nc_script_def cp_script_def)
qed

theorem script_runs_main_witness:
  "nc_script 3 [''stdlib'', ''site-packages'', ''scripts''] installed (demo_world JNull JNull) (Get_page ''project-db'') =
     Some (Inr (nc_main (demo_world JNull JNull) (Get_page ''project-db''))) \<and>
   cp_script 3 [''stdlib'', ''site-packages'', ''scripts''] installed (demo_world JNull JNull) ''Apollo'' ''project-db'' ''project-page'' ''R'' =
     Some (Inr (cp_main (demo_world JNull JNull) ''Apollo'' ''project-db'' ''project-page'' ''R''))"
  by (rule script_runs_main) (simp_all add: installed_def std_installed_def provides_def)

end
