(* ===== verification/Spec2Isabelle.thy ===== *)
theory Spec2Isabelle
  imports Script
begin

text \<open>
  \<^bold>\<open>A verification library for notion-agent-hub.\<close>

  The repository is two Python scripts that wrap a hosted workspace API:
  \<^verbatim>\<open>src/scripts/notion_client.py\<close>, a command-line client with six subcommands
  (\<open>create-page\<close>, \<open>create-db\<close>, \<open>update-page\<close>, \<open>query-db\<close>, \<open>append-blocks\<close>,
  \<open>get-page\<close>), and \<^verbatim>\<open>src/scripts/create_project.py\<close>, which creates a project page
  from a JSON template with \<open>{{NAME}}\<close> placeholders. Both share two pieces of logic,
  written twice: the Target Resolver (\<open>resolve_target\<close>: a raw 32-hex identifier or a
  friendly name looked up in \<^verbatim>\<open>notion-config.json\<close>) and template loading
  (\<open>load_template\<close>). Every invocation reads the token from the environment, reads at
  most a configuration file and a template, sends one request to the remote service and
  prints the answer.

  \<^bold>\<open>Theories.\<close>
  \<^item> \<open>Prelude\<close>: the Python built-ins the scripts call, from Python's semantics:
    \<open>str.replace\<close> (\<open>str_replace\<close>), \<open>str.split\<close> (\<open>str_split\<close>, used by
    \<open>pathlib\<close>), the \<open>in\<close> test on strings (\<open>sublist\<close>), a \<open>dict\<close> as an
    association list in insertion order (\<open>dict_set\<close>, \<open>dict_pop\<close>), and \<open>err_bind\<close>
    for statements that may raise. Collections \<open>str_simps\<close>, \<open>dict_simps\<close>.
  \<^item> \<open>Json\<close>: the values \<open>json.load\<close> returns (\<open>json\<close>, numbers a type parameter),
    the exceptions an invocation can end with (\<open>error\<close>), and what Python's operators
    do on each kind of value (\<open>py_getitem\<close>, \<open>py_contains\<close>, \<open>py_get\<close>,
    \<open>py_setitem\<close>, \<open>py_pop\<close>, \<open>py_keys\<close>, \<open>py_kwargs\<close>).
  \<^item> \<open>Paths\<close>: \<open>pathlib\<close> on POSIX (\<open>pypath\<close>: anchor and parts; \<open>path_of\<close>,
    \<open>path_div\<close>, \<open>path_parent\<close>, \<open>path_resolve\<close>) and the file system as the OS
    walks it (\<open>os_walk\<close>: one name at a time, each step inside an existing directory,
    \<open>..\<close> going up), with \<open>Path.exists\<close> (\<open>path_exists\<close>) and \<open>open\<close>
    (\<open>open_read\<close>, with \<open>FileNotFoundError\<close>, \<open>NotADirectoryError\<close>,
    \<open>IsADirectoryError\<close>).
  \<^item> \<open>Runtime\<close>: the world an invocation runs in (\<open>world\<close>: token, \<open>__file__\<close>, working
    directory, file system, the JSON parser and the remote service as parameters, today's
    date), the module constants \<open>ROOT\<close>, \<open>CONFIG_PATH\<close>, \<open>TEMPLATES_DIR\<close> of
    \<^verbatim>\<open>create_project.py\<close> (lines 26--28) and \<open>CONFIG_PATH_nc\<close>,
    \<open>TEMPLATES_DIR_nc\<close> of \<^verbatim>\<open>notion_client.py\<close> (lines 27--28), each computed as
    its script computes it (the component proofs rewrite the latter into the former by
    \<open>CONFIG_PATH_nc_ROOT\<close>, \<open>TEMPLATES_DIR_nc_ROOT\<close>), the events a run produces (\<open>event\<close>: the configuration or a
    template read, requests sent, lines printed), their sequencing (\<open>run\<close>,
    \<open>run_bind\<close>), and the example world \<open>demo_world\<close> (the project at
    \<^verbatim>\<open>/srv/hub\<close>).
  \<^item> \<open>Resolver\<close>: \<open>resolve_target\<close> and \<open>load_config\<close> of \<^verbatim>\<open>notion_client.py\<close>
    (lines 39--59), the inlined copy \<open>resolve_target_cp\<close> of
    \<^verbatim>\<open>create_project.py\<close> (lines 39--53), the spec's abstract resolver
    \<open>resolve_spec\<close> over the table a configuration denotes (\<open>config_view\<close>), and the
    lemmas: raw identifiers bypass the table (C1), friendly names resolve to their
    \<open>id\<close> (C2), unknown names fail listing the known ones (C3), a missing file fails
    (C4), refinement of the abstract resolver (C5), the file is read at most once (C6),
    ill-shaped configurations end in Python exceptions (C8), a configuration path that is
    a directory passes the existence check and fails in \<open>open\<close> (C26).
  \<^item> \<open>Template\<close>: \<open>load_template\<close> of \<^verbatim>\<open>create_project.py\<close> (lines 56--62) and
    its copy \<open>load_template_nc\<close> of \<^verbatim>\<open>notion_client.py\<close> (lines 62--68),
    \<open>replace_placeholders\<close>
    (\<^verbatim>\<open>create_project.py\<close> lines 65--75, the loop over the replacement dict as
    \<open>replace_str\<close>, a fold) and \<open>create_project_page\<close> (lines 78--95) up to the request
    it sends. Lemmas: identity on strings without placeholders (C9), only string leaves
    change (C10), keys applied in dict order (C11), a project name ending in
    \<open>{{DATE}}\<close> is expanded again in the request (C12), the request body (C13),
    nothing is sent when a step fails (C14, C15), a name without a slash stays in
    \<^verbatim>\<open>templates\<close> (C27) and one with \<open>../\<close> leaves it (C28).
  \<^item> \<open>Commands\<close>: \<open>get_client\<close>, the six handlers of \<^verbatim>\<open>notion_client.py\<close> and the
    dispatch of its \<open>main\<close> (\<open>nc_main\<close> over \<open>nc_command\<close>, the parsed arguments), and
    \<open>main\<close> of \<^verbatim>\<open>create_project.py\<close> (\<open>cp_main\<close>). A handler is the sequence of its
    statements; its trace lists files read, the request sent and lines printed. Lemmas: a
    missing token fails first (C16), the request of every handler: \<open>create-page\<close>,
    \<open>create-db\<close> with a template (C19, C20) and without (C30), \<open>query-db\<close> (C21),
    \<open>update-page\<close>, \<open>append-blocks\<close>, \<open>get-page\<close> (C31); \<open>create_project.py\<close> prints
    its plan before the request (C22), can fail after the page was created (C23), and on
    its success path creates the page and reports its \<open>id\<close> and \<open>url\<close> (C32).
  \<^item> \<open>Effects\<close>: what the spec says of the effects of one invocation, over the traces
    of \<open>Commands\<close>. Their order is \<open>in_spec_order\<close> (ranks by \<open>event_rank\<close>: the
    configuration, a template, the request, output), shown compositionally with
    \<open>phase\<close> and the rules of \<open>phase_intros\<close>; fail-fast is \<open>fails_before_request\<close>
    (rules \<open>ff_intros\<close>); the count of requests is bounded with \<open>req_intros\<close>.
    Lemmas: every subcommand keeps the spec's order (C17) and sends nothing when it fails
    locally (C18) (\<open>create_project.py\<close> does not keep it: it prints its plan first,
    C22), and either script sends at most one request (C29).
  \<^item> \<open>Startup\<close>: the top-level statements of both scripts (\<open>nc_module_body\<close>,
    \<open>cp_module_body\<close>: lines 16--28 and 13--28, then the definitions) and a model of
    Python's import system (\<open>exec_stmts\<close>: \<open>sys.modules\<close>, the search of
    \<open>sys.path\<close>, modules entered before their body runs), with \<open>std_installed\<close>, an
    installation whose standard modules are leaves that bind what the scripts import. The
    interpreter runs on fuel, one unit per nested module body; for the scripts the
    nesting is 2 (\<open>__main__\<close>, then \<open>notion_client\<close> and
    its own imports), so fuel 3 suffices, and \<open>exec_stmts_fuel_le\<close> shows more fuel never
    changes a result.
  \<^item> \<open>Script\<close>: the composition of the two: \<open>nc_script\<close> and \<open>cp_script\<close> run the module
    body as \<open>__main__\<close> and then, by the guard \<open>if __name__ == "__main__": main()\<close>
    (lines 197--198 and 129--130), \<open>main\<close> on the parsed arguments. Run as
    \<^verbatim>\<open>python scripts/notion_client.py\<close>, the script shadows the \<open>notion_client\<close>
    package and both scripts end in \<open>ImportError\<close> before \<open>main\<close>, with no effect, in
    every installation that has the script directory first (C24); where the package is
    found instead, each run is exactly its \<open>main\<close> (C25). Both hold for every fuel from 3
    on.
  \<^item> This theory: the two scripts agree where one copies the other
    (\<open>script_copies_agree\<close>, C7): the inlined resolver of \<^verbatim>\<open>create_project.py\<close>
    is \<open>resolve_target\<close> with \<open>load_config\<close>, and the two \<open>load_template\<close> and
    the two \<open>get_client\<close> are one function each, proved from the definitions of both scripts' path constants.

  \<^bold>\<open>Coverage.\<close> Every function and every top-level statement of both scripts is a
  definition here; what is left of the two files is their docstrings and comments.

  \<^bold>\<open>Not modelled.\<close> \<open>argparse\<close> (the parsed arguments are the input of a handler;
  its usage errors for a missing required argument end \<open>main\<close> before any handler runs),
  the JSON parser and printer of the standard library (a parameter of the world and an
  opaque \<open>Print_json\<close> event: the text \<open>json.dumps\<close> prints is library behaviour, and no
  property of the scripts depends on it), the HTTP client (\<open>api\<close>), \<open>load_dotenv\<close> (the token is
  part of the world), symbolic links (\<open>resolve()\<close> and the OS walk treat every name as a
  file or a directory), and what the scripts print to standard error before
  \<open>sys.exit(1)\<close> (the \<open>error\<close> value determines it).
  Strings are byte strings: the only length the scripts compare is that of a string of
  ASCII hex digits, where Python's code-point count agrees.
\<close>

section \<open>The two scripts agree\<close>

text \<open>C7. The helpers that \<^verbatim>\<open>create_project.py\<close> copies from
  \<^verbatim>\<open>notion_client.py\<close> compute the same runs: its inlined resolver is
  \<open>resolve_target\<close> with \<open>load_config\<close>, and its \<open>load_template\<close> and
  \<open>get_client\<close> are those of \<^verbatim>\<open>notion_client.py\<close>, on every world, although each script computes its own
  paths from \<open>__file__\<close>.\<close>

theorem script_copies_agree:
  "resolve_target_cp w name = resolve_target w name \<and>
   load_template w template = load_template_nc w template \<and>
   get_client_cp w = get_client w"
proof (intro conjI)
  show "resolve_target_cp w name = resolve_target w name"
    by (simp add: resolve_target_cp_def resolve_target_def is_raw_id_def load_config_def
        lookup_target_def Let_def pure_def CONFIG_PATH_nc_def CONFIG_PATH_def ROOT_def
        del: CONFIG_PATH_nc_ROOT split: option.splits)
  show "load_template w template = load_template_nc w template"
    by (simp add: load_template_def load_template_nc_def template_path_def TEMPLATES_DIR_def
        TEMPLATES_DIR_nc_def ROOT_def del: load_template_nc_cp TEMPLATES_DIR_nc_ROOT)
  show "get_client_cp w = get_client w"
    by (simp add: get_client_cp_def get_client_def del: get_client_cp_nc)
qed

end
